theory Spec2Isabelle
  imports Main "HOL-Library.Word" "HOL-Library.Signed_Division"
begin

unbundle bit_operations_syntax

section \<open>Operator catalog\<close>

text \<open>
  The operator tags that the functions modelled below mention. The enumeration itself is
  declared in a header that is not among the sources; its order is used by \<open>operator<\<close>
  only, which is not modelled.
\<close>

datatype (plugins only: code) OPER =
    opPlus | opMinus | opMult | opMults | opDiv | opDivs | opMod | opMods
  | opFMinus
  | opAnd | opOr | opBitAnd | opBitOr | opBitXor
  | opEquals | opNotEqual | opLess | opGtr | opLessEq | opGtrEq
  | opLessUns | opGtrUns | opLessEqUns | opGtrEqUns
  | opShiftL | opShiftR | opShiftRA
  | opSize | opList | opMemberAccess | opArrayIndex
  | opNot | opLNot | opNeg | opFNeg
  | opRegOf | opMemOf | opAddrOf | opVar
  | opTemp | opGlobal | opLocal | opParam | opInitValueOf
  | opTern | opTruncu | opTruncs | opZfill | opSgnEx | opFsize | opItof
  | opPC | opDF | opAFP | opNil | opTrue | opFalse
  | opWild | opWildIntConst | opWildStrConst | opWildMemOf | opWildRegOf | opWildAddrOf
  | opIntConst | opLongConst | opFltConst | opStrConst | opFuncConst
  | opTypedExp | opSubscript | opTypeVal

section \<open>Expression nodes\<close>

text \<open>
  Types and statements belong to collaborators of the expression classes. A type is compared
  with its own \<open>operator==\<close>, modelled by equality of the values below. A statement is
  known to an expression through a pointer; the model keeps the pointer's identity, the
  statement kind and, for an assignment whose left side is \<open>r[k]\<close>, the number \<open>k\<close>.
\<close>

datatype ty = VoidType | IntegerType nat | SizeType nat | PointerType ty | NamedType string

datatype stmt_kind = STMT_ASSIGN | STMT_IMPASSIGN | STMT_PHIASSIGN | STMT_CALL

datatype stmt = Stmt (stmt_id: nat) (stmt_kind: stmt_kind) (stmt_left_reg: "32 word option")

text \<open>
  The \<open>def\<close> field of a \<open>RefExp\<close>: the null pointer, the wildcard value
  \<open>(Instruction*)-1\<close>, or a pointer to a statement.
\<close>

datatype defn = DefNull | DefWild | Def stmt

text \<open>
  The payload of a \<open>Const\<close>. Each constructor of the class fixes the operator tag with
  the member of the union that it fills, so the tag is read off the payload. A double is kept
  as its 64 bits.
\<close>

datatype cval = IntV "32 word" | LongV "64 word" | FltV "64 word" | StrV string | FuncV nat

text \<open>
  \<open>Const v c\<close> carries the payload and the conscript. \<open>Location\<close> omits the pointer to
  the enclosing procedure, and \<open>FlagDef\<close>, a \<open>Unary\<close> that only adds an RTL and
  overrides none of the functions below, is the node \<open>Unary\<close> itself.
\<close>

datatype exp =
    Const cval int
  | Terminal OPER
  | Unary OPER exp
  | Binary OPER exp exp
  | Ternary OPER exp exp exp
  | TypedExp ty exp
  | RefExp exp defn
  | TypeVal ty
  | Location OPER exp

fun cval_oper :: "cval \<Rightarrow> OPER" where
  "cval_oper (IntV _) = opIntConst"
| "cval_oper (LongV _) = opLongConst"
| "cval_oper (FltV _) = opFltConst"
| "cval_oper (StrV _) = opStrConst"
| "cval_oper (FuncV _) = opFuncConst"

fun getOper :: "exp \<Rightarrow> OPER" where
  "getOper (Const v c) = cval_oper v"
| "getOper (Terminal oper) = oper"
| "getOper (Unary oper a) = oper"
| "getOper (Binary oper a b) = oper"
| "getOper (Ternary oper a b c) = oper"
| "getOper (TypedExp t a) = opTypedExp"
| "getOper (RefExp a d) = opSubscript"
| "getOper (TypeVal t) = opTypeVal"
| "getOper (Location oper a) = oper"

text \<open>
  \<open>Binary\<close> derives from \<open>Unary\<close> and \<open>Ternary\<close> from \<open>Binary\<close>, so every
  node with a child answers \<open>getSubExp1\<close>. On a node without the child the accessor of the
  base class is reached, which has nothing to return: \<open>None\<close>.
\<close>

fun getSubExp1 :: "exp \<Rightarrow> exp option" where
  "getSubExp1 (Unary oper a) = Some a"
| "getSubExp1 (Binary oper a b) = Some a"
| "getSubExp1 (Ternary oper a b c) = Some a"
| "getSubExp1 (TypedExp t a) = Some a"
| "getSubExp1 (RefExp a d) = Some a"
| "getSubExp1 (Location oper a) = Some a"
| "getSubExp1 _ = None"

fun getSubExp2 :: "exp \<Rightarrow> exp option" where
  "getSubExp2 (Binary oper a b) = Some b"
| "getSubExp2 (Ternary oper a b c) = Some b"
| "getSubExp2 _ = None"

fun getSubExp3 :: "exp \<Rightarrow> exp option" where
  "getSubExp3 (Ternary oper a b c) = Some c"
| "getSubExp3 _ = None"

text \<open>\<open>dynamic_cast<const Binary *>\<close> and \<open>dynamic_cast<const Ternary *>\<close>.\<close>

fun isBinaryClass :: "exp \<Rightarrow> bool" where
  "isBinaryClass (Binary oper a b) = True"
| "isBinaryClass (Ternary oper a b c) = True"
| "isBinaryClass _ = False"

fun isTernaryClass :: "exp \<Rightarrow> bool" where
  "isTernaryClass (Ternary oper a b c) = True"
| "isTernaryClass _ = False"

text \<open>\<open>Const::get(int)\<close>, \<open>Location::regOf(int)\<close>, \<open>Location::memOf\<close>.\<close>

definition Const_get :: "32 word \<Rightarrow> exp" where
  "Const_get k = Const (IntV k) 0"

definition regOf :: "32 word \<Rightarrow> exp" where
  "regOf r = Location opRegOf (Const_get r)"

definition memOf :: "exp \<Rightarrow> exp" where
  "memOf e = Location opMemOf e"

section \<open>Faults\<close>

text \<open>
  The ways in which a call of the functions modelled below ends without a result: the
  exception of \<open>getStackRegister\<close>, a failed assertion, an index out of range, an integer
  division that traps, a cast of a node to a class it does not have, a null pointer that is
  dereferenced, and the wildcard definition \<open>(Instruction*)-1\<close> used as a pointer.
\<close>

datatype fault =
    StackRegisterNotDefinedException
  | AssertionFailed
  | OutOfRange
  | DivisionByZero
  | DivisionOverflow
  | BadCast
  | NullPointer
  | WildPointer

section \<open>Strict equality\<close>

text \<open>
  \<open>u.d == o.u.d\<close> on doubles, read from the bits: a NaN equals nothing, the two zeros are
  equal, every other value equals itself only.
\<close>

definition flt_isnan :: "64 word \<Rightarrow> bool" where
  "flt_isnan w \<longleftrightarrow>
     (w AND 0x7FF0000000000000 = 0x7FF0000000000000) \<and> (w AND 0x000FFFFFFFFFFFFF \<noteq> 0)"

definition flt_eq :: "64 word \<Rightarrow> 64 word \<Rightarrow> bool" where
  "flt_eq a b \<longleftrightarrow>
     \<not> flt_isnan a \<and> \<not> flt_isnan b \<and>
     (a = b \<or> (a AND 0x7FFFFFFFFFFFFFFF = 0 \<and> b AND 0x7FFFFFFFFFFFFFFF = 0))"

text \<open>\<open>RefExp::isImplicitDef\<close> and \<open>def && def->isImplicit()\<close>.\<close>

fun isImplicitDef :: "defn \<Rightarrow> bool" where
  "isImplicitDef DefNull = True"
| "isImplicitDef (Def s) = (stmt_kind s = STMT_IMPASSIGN)"
| "isImplicitDef DefWild = False"

fun defIsImplicit :: "defn \<Rightarrow> bool" where
  "defIsImplicit (Def s) = (stmt_kind s = STMT_IMPASSIGN)"
| "defIsImplicit _ = False"

text \<open>
  The switch on the tag at the end of \<open>Const::operator==\<close>, which is reached with two
  constants of one tag. It compares integers, doubles and strings; its \<open>default\<close> branch,
  taken for two long constants and for two function constants, logs and runs
  \<open>assert(false)\<close>. (Compiled without assertions the function returns false there.)
\<close>

fun cval_eq :: "cval \<Rightarrow> cval \<Rightarrow> fault + bool" where
  "cval_eq (IntV a) (IntV b) = Inr (a = b)"
| "cval_eq (FltV a) (FltV b) = Inr (flt_eq a b)"
| "cval_eq (StrV a) (StrV b) = Inr (a = b)"
| "cval_eq (LongV a) v = Inl AssertionFailed"
| "cval_eq (FuncV a) v = Inl AssertionFailed"
| "cval_eq v v' = Inr False"

text \<open>
  \<open>operator==\<close>, dispatched on the class of the left operand: one equation for each of
  \<open>Const\<close>, \<open>Terminal\<close>, \<open>Unary\<close>, \<open>Binary\<close>, \<open>Ternary\<close>, \<open>TypedExp\<close>,
  \<open>RefExp\<close>, \<open>TypeVal\<close>; \<open>Location\<close> inherits the one of \<open>Unary\<close>. The result is
  the boolean that the call returns, or the failed assertion of a comparison of constants
  that it reaches; a comparison of children that fails ends the comparison of their parents.
  Where the source casts the right operand to the class of the left one without a test and
  the right operand is of another class, the model answers false.
\<close>

fun exp_eq :: "exp \<Rightarrow> exp \<Rightarrow> fault + bool" where
  "exp_eq (Const v c) o' =
     (if getOper o' = opWild then Inr True
      else if getOper o' = opWildIntConst \<and> cval_oper v = opIntConst then Inr True
      else if getOper o' = opWildStrConst \<and> cval_oper v = opStrConst then Inr True
      else if cval_oper v \<noteq> getOper o' then Inr False
      else (case o' of
              Const v' c' \<Rightarrow>
                if (c \<noteq> 0 \<and> c \<noteq> c') \<or> c' \<noteq> 0 then Inr False else cval_eq v v'
            | _ \<Rightarrow> Inr False))"
| "exp_eq (Terminal oper) o' =
     Inr (if oper = opWildIntConst then getOper o' = opIntConst
          else if oper = opWildStrConst then getOper o' = opStrConst
          else if oper = opWildMemOf then getOper o' = opMemOf
          else if oper = opWildRegOf then getOper o' = opRegOf
          else if oper = opWildAddrOf then getOper o' = opAddrOf
          else (oper = opWild \<or> getOper o' = opWild \<or> oper = getOper o'))"
| "exp_eq (Unary oper a) o' =
     (if getOper o' = opWild then Inr True
      else if getOper o' = opWildRegOf \<and> oper = opRegOf then Inr True
      else if getOper o' = opWildMemOf \<and> oper = opMemOf then Inr True
      else if getOper o' = opWildAddrOf \<and> oper = opAddrOf then Inr True
      else if oper \<noteq> getOper o' then Inr False
      else (case getSubExp1 o' of Some b \<Rightarrow> exp_eq a b | None \<Rightarrow> Inr False))"
| "exp_eq (Location oper a) o' =
     (if getOper o' = opWild then Inr True
      else if getOper o' = opWildRegOf \<and> oper = opRegOf then Inr True
      else if getOper o' = opWildMemOf \<and> oper = opMemOf then Inr True
      else if getOper o' = opWildAddrOf \<and> oper = opAddrOf then Inr True
      else if oper \<noteq> getOper o' then Inr False
      else (case getSubExp1 o' of Some b \<Rightarrow> exp_eq a b | None \<Rightarrow> Inr False))"
| "exp_eq (Binary oper a1 a2) o' =
     (if getOper o' = opWild then Inr True
      else if \<not> isBinaryClass o' then Inr False
      else if oper \<noteq> getOper o' then Inr False
      else (case (getSubExp1 o', getSubExp2 o') of
              (Some b1, Some b2) \<Rightarrow>
                (case exp_eq a1 b1 of
                   Inl f \<Rightarrow> Inl f
                 | Inr r1 \<Rightarrow> if \<not> r1 then Inr False else exp_eq a2 b2)
            | _ \<Rightarrow> Inr False))"
| "exp_eq (Ternary oper a1 a2 a3) o' =
     (if getOper o' = opWild then Inr True
      else (case o' of
              Ternary oper' b1 b2 b3 \<Rightarrow>
                if oper \<noteq> oper' then Inr False
                else (case exp_eq a1 b1 of
                        Inl f \<Rightarrow> Inl f
                      | Inr r1 \<Rightarrow>
                          if \<not> r1 then Inr False
                          else (case exp_eq a2 b2 of
                                  Inl f \<Rightarrow> Inl f
                                | Inr r2 \<Rightarrow> if \<not> r2 then Inr False else exp_eq a3 b3))
            | _ \<Rightarrow> Inr False))"
| "exp_eq (TypedExp t a) o' =
     (if getOper o' = opWild then Inr True
      else if getOper o' \<noteq> opTypedExp then Inr False
      else (case o' of
              TypedExp t' b \<Rightarrow> if t \<noteq> t' then Inr False else exp_eq a b
            | _ \<Rightarrow> Inr False))"
| "exp_eq (RefExp a d) o' =
     (if getOper o' = opWild then Inr True
      else if getOper o' \<noteq> opSubscript then Inr False
      else (case o' of
              RefExp b d' \<Rightarrow>
                (case exp_eq a b of
                   Inl f \<Rightarrow> Inl f
                 | Inr r1 \<Rightarrow>
                     if \<not> r1 then Inr False
                     else if d = DefWild then Inr True
                     else if d' = DefWild then Inr True
                     else if d = DefNull \<and> isImplicitDef d' then Inr True
                     else if d' = DefNull \<and> defIsImplicit d then Inr True
                     else Inr (d = d'))
            | _ \<Rightarrow> Inr False))"
| "exp_eq (TypeVal t) o' =
     (if getOper o' = opWild then Inr True
      else if getOper o' \<noteq> opTypeVal then Inr False
      else (case o' of TypeVal t' \<Rightarrow> Inr (t = t') | _ \<Rightarrow> Inr False))"

text \<open>
  \<open>eq_holds a b\<close>: the comparison \<open>a == b\<close> returns true. The recursion is the one of
  \<open>exp_eq\<close> with the failed assertion read as false; \<open>exp_eq_holds\<close> below shows that
  this is \<open>exp_eq a b = Inr True\<close>.
\<close>

fun cval_eq_holds :: "cval \<Rightarrow> cval \<Rightarrow> bool" where
  "cval_eq_holds (IntV a) (IntV b) = (a = b)"
| "cval_eq_holds (FltV a) (FltV b) = flt_eq a b"
| "cval_eq_holds (StrV a) (StrV b) = (a = b)"
| "cval_eq_holds _ _ = False"

fun eq_holds :: "exp \<Rightarrow> exp \<Rightarrow> bool" where
  "eq_holds (Const v c) o' =
     (if getOper o' = opWild then True
      else if getOper o' = opWildIntConst \<and> cval_oper v = opIntConst then True
      else if getOper o' = opWildStrConst \<and> cval_oper v = opStrConst then True
      else if cval_oper v \<noteq> getOper o' then False
      else (case o' of
              Const v' c' \<Rightarrow>
                if (c \<noteq> 0 \<and> c \<noteq> c') \<or> c' \<noteq> 0 then False else cval_eq_holds v v'
            | _ \<Rightarrow> False))"
| "eq_holds (Terminal oper) o' =
     (if oper = opWildIntConst then getOper o' = opIntConst
      else if oper = opWildStrConst then getOper o' = opStrConst
      else if oper = opWildMemOf then getOper o' = opMemOf
      else if oper = opWildRegOf then getOper o' = opRegOf
      else if oper = opWildAddrOf then getOper o' = opAddrOf
      else (oper = opWild \<or> getOper o' = opWild \<or> oper = getOper o'))"
| "eq_holds (Unary oper a) o' =
     (if getOper o' = opWild then True
      else if getOper o' = opWildRegOf \<and> oper = opRegOf then True
      else if getOper o' = opWildMemOf \<and> oper = opMemOf then True
      else if getOper o' = opWildAddrOf \<and> oper = opAddrOf then True
      else if oper \<noteq> getOper o' then False
      else (case getSubExp1 o' of Some b \<Rightarrow> eq_holds a b | None \<Rightarrow> False))"
| "eq_holds (Location oper a) o' =
     (if getOper o' = opWild then True
      else if getOper o' = opWildRegOf \<and> oper = opRegOf then True
      else if getOper o' = opWildMemOf \<and> oper = opMemOf then True
      else if getOper o' = opWildAddrOf \<and> oper = opAddrOf then True
      else if oper \<noteq> getOper o' then False
      else (case getSubExp1 o' of Some b \<Rightarrow> eq_holds a b | None \<Rightarrow> False))"
| "eq_holds (Binary oper a1 a2) o' =
     (if getOper o' = opWild then True
      else if \<not> isBinaryClass o' then False
      else if oper \<noteq> getOper o' then False
      else (case (getSubExp1 o', getSubExp2 o') of
              (Some b1, Some b2) \<Rightarrow> if \<not> eq_holds a1 b1 then False else eq_holds a2 b2
            | _ \<Rightarrow> False))"
| "eq_holds (Ternary oper a1 a2 a3) o' =
     (if getOper o' = opWild then True
      else (case o' of
              Ternary oper' b1 b2 b3 \<Rightarrow>
                if oper \<noteq> oper' then False
                else if \<not> eq_holds a1 b1 then False
                else if \<not> eq_holds a2 b2 then False
                else eq_holds a3 b3
            | _ \<Rightarrow> False))"
| "eq_holds (TypedExp t a) o' =
     (if getOper o' = opWild then True
      else if getOper o' \<noteq> opTypedExp then False
      else (case o' of
              TypedExp t' b \<Rightarrow> if t \<noteq> t' then False else eq_holds a b
            | _ \<Rightarrow> False))"
| "eq_holds (RefExp a d) o' =
     (if getOper o' = opWild then True
      else if getOper o' \<noteq> opSubscript then False
      else (case o' of
              RefExp b d' \<Rightarrow>
                if \<not> eq_holds a b then False
                else if d = DefWild then True
                else if d' = DefWild then True
                else if d = DefNull \<and> isImplicitDef d' then True
                else if d' = DefNull \<and> defIsImplicit d then True
                else d = d'
            | _ \<Rightarrow> False))"
| "eq_holds (TypeVal t) o' =
     (if getOper o' = opWild then True
      else if getOper o' \<noteq> opTypeVal then False
      else (case o' of TypeVal t' \<Rightarrow> t = t' | _ \<Rightarrow> False))"

section \<open>Signatures\<close>

record Parameter =
  param_type :: ty
  param_name :: string
  param_exp :: exp
  param_boundMax :: string

record Return =
  return_type :: ty
  return_exp :: exp

text \<open>The classes of signature.cpp; the dynamic class of a signature object.\<close>

datatype sigclass =
    BaseSignature
  | Win32Signature
  | Win32TcSignature
  | PentiumSignature
  | SparcSignature
  | SparcLibSignature
  | PPCSignature
  | MIPSSignature
  | ST20Signature

record Signature =
  sig_class :: sigclass
  sig_name :: string
  sig_params :: "Parameter list"
  sig_returns :: "Return list"
  sig_ellipsis :: bool
  sig_unknown :: bool
  sig_forced :: bool

text \<open>
  \<open>Signature::getParamExp\<close>: asserts \<open>n < params.size()\<close> and indexes the vector. A
  negative \<open>n\<close> passes the assertion and indexes out of range.
\<close>

definition getParamExp :: "Signature \<Rightarrow> int \<Rightarrow> fault + exp" where
  "getParamExp s n =
     (if \<not> n < int (length (sig_params s)) then Inl AssertionFailed
      else if n < 0 then Inl OutOfRange
      else Inr (param_exp (sig_params s ! nat n)))"

definition Signature_getArgumentExp :: "Signature \<Rightarrow> int \<Rightarrow> fault + exp" where
  "Signature_getArgumentExp s n = getParamExp s n"

text \<open>
  \<open>Win32Signature::getArgumentExp\<close> and \<open>PentiumSignature::getArgumentExp\<close> have the
  same body. The constant is computed in \<open>int\<close>; the model wraps it to 32 bits. The
  comparison of the first parameter with the stack pointer has a register on its right, so
  it meets no pair of long or function constants and returns (\<open>exp_eq_regOf_returns\<close>
  below); the condition is that it returns true.
\<close>

definition Win32Signature_getArgumentExp :: "Signature \<Rightarrow> int \<Rightarrow> fault + exp" where
  "Win32Signature_getArgumentExp s n =
     (if n < int (length (sig_params s)) then Signature_getArgumentExp s n
      else
        let esp = regOf 28;
            n' = (if sig_params s \<noteq> [] \<and> exp_eq (param_exp (hd (sig_params s))) esp = Inr True
                  then n - 1 else n)
        in Inr (memOf (Binary opPlus esp (Const_get (word_of_int ((n' + 1) * 4))))))"

definition PentiumSignature_getArgumentExp :: "Signature \<Rightarrow> int \<Rightarrow> fault + exp" where
  "PentiumSignature_getArgumentExp s n =
     (if n < int (length (sig_params s)) then Signature_getArgumentExp s n
      else
        let esp = regOf 28;
            n' = (if sig_params s \<noteq> [] \<and> exp_eq (param_exp (hd (sig_params s))) esp = Inr True
                  then n - 1 else n)
        in Inr (memOf (Binary opPlus esp (Const_get (word_of_int ((n' + 1) * 4))))))"

definition Win32TcSignature_getArgumentExp :: "Signature \<Rightarrow> int \<Rightarrow> fault + exp" where
  "Win32TcSignature_getArgumentExp s n =
     (if n < int (length (sig_params s)) then Signature_getArgumentExp s n
      else
        let esp = regOf 28;
            n' = (if sig_params s \<noteq> [] \<and> exp_eq (param_exp (hd (sig_params s))) esp = Inr True
                  then n - 1 else n)
        in if n' = 0 then Inr (regOf 25)
           else Inr (memOf (Binary opPlus esp (Const_get (word_of_int (n' * 4))))))"

definition SparcSignature_getArgumentExp :: "Signature \<Rightarrow> int \<Rightarrow> fault + exp" where
  "SparcSignature_getArgumentExp s n =
     (if n < int (length (sig_params s)) then Signature_getArgumentExp s n
      else if n \<ge> 6
        then Inr (memOf (Binary opPlus (regOf 14) (Const_get (word_of_int (92 + (n - 6) * 4)))))
        else Inr (regOf (word_of_int (8 + n))))"

definition PPCSignature_getArgumentExp :: "Signature \<Rightarrow> int \<Rightarrow> fault + exp" where
  "PPCSignature_getArgumentExp s n =
     (if n < int (length (sig_params s)) then Signature_getArgumentExp s n
      else if n \<ge> 8
        then Inr (memOf (Binary opPlus (regOf 1) (Const_get (word_of_int (8 + (n - 8) * 4)))))
        else Inr (regOf (word_of_int (3 + n))))"

definition MIPSSignature_getArgumentExp :: "Signature \<Rightarrow> int \<Rightarrow> fault + exp" where
  "MIPSSignature_getArgumentExp s n =
     (if n < int (length (sig_params s)) then Signature_getArgumentExp s n
      else if n \<ge> 4
        then Inr (memOf (Binary opPlus (regOf 29) (Const_get (word_of_int (4 * 4 + (n - 4) * 4)))))
        else Inr (regOf (word_of_int (8 + n))))"

definition ST20Signature_getArgumentExp :: "Signature \<Rightarrow> int \<Rightarrow> fault + exp" where
  "ST20Signature_getArgumentExp s n =
     (if n < int (length (sig_params s)) then Signature_getArgumentExp s n
      else
        let sp = regOf 3;
            n' = (if sig_params s \<noteq> [] \<and> exp_eq (param_exp (hd (sig_params s))) sp = Inr True
                  then n - 1 else n)
        in Inr (memOf (Binary opPlus sp (Const_get (word_of_int ((n' + 1) * 4))))))"

text \<open>The virtual call \<open>sig->getArgumentExp(n)\<close>.\<close>

definition getArgumentExp :: "Signature \<Rightarrow> int \<Rightarrow> fault + exp" where
  "getArgumentExp s n =
     (case sig_class s of
        BaseSignature \<Rightarrow> Signature_getArgumentExp s n
      | Win32Signature \<Rightarrow> Win32Signature_getArgumentExp s n
      | Win32TcSignature \<Rightarrow> Win32TcSignature_getArgumentExp s n
      | PentiumSignature \<Rightarrow> PentiumSignature_getArgumentExp s n
      | SparcSignature \<Rightarrow> SparcSignature_getArgumentExp s n
      | SparcLibSignature \<Rightarrow> SparcSignature_getArgumentExp s n
      | PPCSignature \<Rightarrow> PPCSignature_getArgumentExp s n
      | MIPSSignature \<Rightarrow> MIPSSignature_getArgumentExp s n
      | ST20Signature \<Rightarrow> ST20Signature_getArgumentExp s n)"

text \<open>
  The virtual call \<open>sig->getStackRegister()\<close>: the base class throws, every class of a
  calling convention returns its register.
\<close>

definition getStackRegister :: "Signature \<Rightarrow> fault + int" where
  "getStackRegister s =
     (case sig_class s of
        BaseSignature \<Rightarrow> Inl StackRegisterNotDefinedException
      | Win32Signature \<Rightarrow> Inr 28
      | Win32TcSignature \<Rightarrow> Inr 28
      | PentiumSignature \<Rightarrow> Inr 28
      | SparcSignature \<Rightarrow> Inr 14
      | SparcLibSignature \<Rightarrow> Inr 14
      | PPCSignature \<Rightarrow> Inr 1
      | MIPSSignature \<Rightarrow> Inr 29
      | ST20Signature \<Rightarrow> Inr 3)"

text \<open>
  \<open>isRegOfK\<close> followed by \<open>access<Const,1>()->getInt()\<close>: the register number of
  \<open>r[k]\<close>, for an integer constant \<open>k\<close>.
\<close>

definition isRegOfK :: "exp \<Rightarrow> bool" where
  "isRegOfK e \<longleftrightarrow>
     getOper e = opRegOf \<and> (case getSubExp1 e of Some a \<Rightarrow> getOper a = opIntConst | None \<Rightarrow> False)"

fun getInt :: "exp \<Rightarrow> 32 word option" where
  "getInt (Const (IntV k) c) = Some k"
| "getInt _ = None"

definition regNumber :: "exp \<Rightarrow> 32 word option" where
  "regNumber e =
     (if isRegOfK e then (case getSubExp1 e of Some a \<Rightarrow> getInt a | None \<Rightarrow> None) else None)"

text \<open>
  \<open>getProven\<close>, one definition for each class that has one; \<open>None\<close> is the null
  pointer. The comparison with \<open>r[28]\<close> is the one of \<open>getArgumentExp\<close>.
\<close>

definition Win32Signature_getProven :: "Signature \<Rightarrow> exp \<Rightarrow> exp option" where
  "Win32Signature_getProven s left =
     (let nparams0 = int (length (sig_params s));
          nparams = (if nparams0 > 0 \<and> exp_eq (param_exp (hd (sig_params s))) (regOf 28) = Inr True
                     then nparams0 - 1 else nparams0)
      in case regNumber left of
           Some r \<Rightarrow>
             if r = 28 then Some (Binary opPlus (regOf 28) (Const_get (word_of_int (4 + nparams * 4))))
             else if r = 27 then Some (regOf 27)
             else if r = 29 then Some (regOf 29)
             else if r = 30 then Some (regOf 30)
             else if r = 31 then Some (regOf 31)
             else None
         | None \<Rightarrow> None)"

definition Win32TcSignature_getProven :: "Signature \<Rightarrow> exp \<Rightarrow> exp option" where
  "Win32TcSignature_getProven s left =
     (if regNumber left = Some 28 then
        let nparams0 = int (length (sig_params s));
            nparams = (if nparams0 > 0 \<and> exp_eq (param_exp (hd (sig_params s))) (regOf 28) = Inr True
                       then nparams0 - 1 else nparams0)
        in Some (Binary opPlus (regOf 28) (Const_get (word_of_int (4 + nparams * 4 - 4))))
      else Win32Signature_getProven s left)"

definition PentiumSignature_getProven :: "exp \<Rightarrow> exp option" where
  "PentiumSignature_getProven left =
     (case regNumber left of
        Some r \<Rightarrow>
          if r = 28 then Some (Binary opPlus (regOf 28) (Const_get 4))
          else if r = 29 \<or> r = 30 \<or> r = 31 \<or> r = 27 then Some (regOf r)
          else None
      | None \<Rightarrow> None)"

definition PPCSignature_getProven :: "exp \<Rightarrow> exp option" where
  "PPCSignature_getProven left =
     (case regNumber left of
        Some r \<Rightarrow> if r = 1 then Some left else None
      | None \<Rightarrow> None)"

definition ST20Signature_getProven :: "exp \<Rightarrow> exp option" where
  "ST20Signature_getProven left =
     (case regNumber left of
        Some r \<Rightarrow>
          if r = 3 then Some left
          else if r = 0 \<or> r = 1 \<or> r = 2 then Some (regOf r)
          else None
      | None \<Rightarrow> None)"

definition MIPSSignature_getProven :: "exp \<Rightarrow> exp option" where
  "MIPSSignature_getProven left =
     (case regNumber left of
        Some r \<Rightarrow> if r = 29 then Some left else None
      | None \<Rightarrow> None)"

definition SparcSignature_getProven :: "exp \<Rightarrow> exp option" where
  "SparcSignature_getProven left =
     (case regNumber left of
        Some r \<Rightarrow>
          if r = 14 \<or> r = 24 \<or> r = 25 \<or> r = 26 \<or> r = 27 \<or> r = 28 \<or> r = 29 \<or> r = 30 \<or> r = 31
          then Some left else None
      | None \<Rightarrow> None)"

definition SparcLibSignature_getProven :: "exp \<Rightarrow> exp option" where
  "SparcLibSignature_getProven left =
     (case regNumber left of
        Some r \<Rightarrow>
          if r = 14 \<or> r = 24 \<or> r = 25 \<or> r = 26 \<or> r = 27 \<or> r = 28 \<or> r = 29 \<or> r = 30 \<or> r = 31
             \<or> r = 2 \<or> r = 3 \<or> r = 4
          then Some left else None
      | None \<Rightarrow> None)"

text \<open>
  \<open>isPreserved\<close>. \<open>Win32Signature::isPreserved\<close> and \<open>PentiumSignature::isPreserved\<close>
  have the same body; \<open>Win32TcSignature\<close> inherits the first and
  \<open>SparcLibSignature\<close> inherits the one of \<open>SparcSignature\<close>.
\<close>

definition Win32Signature_isPreserved :: "exp \<Rightarrow> bool" where
  "Win32Signature_isPreserved e =
     (case regNumber e of
        Some r \<Rightarrow> r = 29 \<or> r = 27 \<or> r = 30 \<or> r = 31 \<or> r = 3 \<or> r = 5 \<or> r = 6 \<or> r = 7
                  \<or> r = 11 \<or> r = 15
      | None \<Rightarrow> False)"

definition PentiumSignature_isPreserved :: "exp \<Rightarrow> bool" where
  "PentiumSignature_isPreserved e =
     (case regNumber e of
        Some r \<Rightarrow> r = 29 \<or> r = 27 \<or> r = 30 \<or> r = 31 \<or> r = 3 \<or> r = 5 \<or> r = 6 \<or> r = 7
                  \<or> r = 11 \<or> r = 15
      | None \<Rightarrow> False)"

definition PPCSignature_isPreserved :: "exp \<Rightarrow> bool" where
  "PPCSignature_isPreserved e = (case regNumber e of Some r \<Rightarrow> r = 1 | None \<Rightarrow> False)"

definition MIPSSignature_isPreserved :: "exp \<Rightarrow> bool" where
  "MIPSSignature_isPreserved e = (case regNumber e of Some r \<Rightarrow> r = 29 | None \<Rightarrow> False)"

definition SparcSignature_isPreserved :: "exp \<Rightarrow> bool" where
  "SparcSignature_isPreserved e =
     (case regNumber e of
        Some r \<Rightarrow> r = 14 \<or> r = 24 \<or> r = 25 \<or> r = 26 \<or> r = 27 \<or> r = 28 \<or> r = 29 \<or> r = 30
                  \<or> r = 31
      | None \<Rightarrow> False)"

text \<open>
  The virtual calls. The base class and \<open>ST20Signature\<close> use \<open>Signature::isPreserved\<close>,
  and the base class uses \<open>Signature::getProven\<close>; both are defined in the header, which is
  not among the sources, and are parameters here.
\<close>

definition isPreserved :: "(exp \<Rightarrow> bool) \<Rightarrow> Signature \<Rightarrow> exp \<Rightarrow> bool" where
  "isPreserved base_isPreserved s e =
     (case sig_class s of
        BaseSignature \<Rightarrow> base_isPreserved e
      | Win32Signature \<Rightarrow> Win32Signature_isPreserved e
      | Win32TcSignature \<Rightarrow> Win32Signature_isPreserved e
      | PentiumSignature \<Rightarrow> PentiumSignature_isPreserved e
      | SparcSignature \<Rightarrow> SparcSignature_isPreserved e
      | SparcLibSignature \<Rightarrow> SparcSignature_isPreserved e
      | PPCSignature \<Rightarrow> PPCSignature_isPreserved e
      | MIPSSignature \<Rightarrow> MIPSSignature_isPreserved e
      | ST20Signature \<Rightarrow> base_isPreserved e)"

definition getProven :: "(exp \<Rightarrow> exp option) \<Rightarrow> Signature \<Rightarrow> exp \<Rightarrow> exp option" where
  "getProven base_getProven s left =
     (case sig_class s of
        BaseSignature \<Rightarrow> base_getProven left
      | Win32Signature \<Rightarrow> Win32Signature_getProven s left
      | Win32TcSignature \<Rightarrow> Win32TcSignature_getProven s left
      | PentiumSignature \<Rightarrow> PentiumSignature_getProven left
      | SparcSignature \<Rightarrow> SparcSignature_getProven left
      | SparcLibSignature \<Rightarrow> SparcLibSignature_getProven left
      | PPCSignature \<Rightarrow> PPCSignature_getProven left
      | MIPSSignature \<Rightarrow> MIPSSignature_getProven left
      | ST20Signature \<Rightarrow> ST20Signature_getProven left)"

text \<open>
  \<open>Signature::instantiate(PLAT_PENTIUM, CONV_PASCAL, nam)\<close> makes a \<open>Win32Signature\<close>,
  whose constructor adds \<open>r[28]\<close> as the first return and no parameter.
\<close>

definition win32_fresh :: "string \<Rightarrow> Signature" where
  "win32_fresh nam =
     \<lparr> sig_class = Win32Signature, sig_name = nam, sig_params = [],
       sig_returns = [\<lparr> return_type = PointerType VoidType, return_exp = regOf 28 \<rparr>],
       sig_ellipsis = False, sig_unknown = True, sig_forced = False \<rparr>"

definition base_fresh :: "string \<Rightarrow> Signature" where
  "base_fresh nam =
     \<lparr> sig_class = BaseSignature, sig_name = nam, sig_params = [], sig_returns = [],
       sig_ellipsis = False, sig_unknown = True, sig_forced = False \<rparr>"

section \<open>Search and replace\<close>

text \<open>\<open>clone\<close>, class by class; it rebuilds the tree it is given.\<close>

primrec clone :: "exp \<Rightarrow> exp" where
  "clone (Const v c) = Const v c"
| "clone (Terminal oper) = Terminal oper"
| "clone (Unary oper a) = Unary oper (clone a)"
| "clone (Binary oper a b) = Binary oper (clone a) (clone b)"
| "clone (Ternary oper a b c) = Ternary oper (clone a) (clone b) (clone c)"
| "clone (TypedExp t a) = TypedExp t (clone a)"
| "clone (RefExp a d) = RefExp (clone a) d"
| "clone (TypeVal t) = TypeVal t"
| "clone (Location oper a) = Location oper (clone a)"


text \<open>
  \<open>doSearch\<close> collects pointers to the slots (\<open>SharedExp *\<close>) that hold a matching
  subexpression. A slot is modelled by its position: the list of child indices (0, 1, 2) that
  leads from the root to it; the empty list is the local variable \<open>top\<close> of the caller.
\<close>

type_synonym path = "nat list"


text \<open>
  \<open>Exp::doSearch\<close> and the virtual \<open>doSearchChildren\<close>: the version of \<open>Exp\<close>
  (for \<open>Const\<close>, \<open>Terminal\<close> and \<open>TypeVal\<close>) does nothing, the one of \<open>Unary\<close>
  is inherited by \<open>Location\<close>, \<open>TypedExp\<close> and \<open>RefExp\<close>. \<open>pos\<close> is the slot of
  \<open>pSrc\<close> and \<open>li\<close> the list of slots found so far. A comparison that runs into its
  assertion ends the search.
\<close>

fun doSearch :: "exp \<Rightarrow> exp \<Rightarrow> path \<Rightarrow> path list \<Rightarrow> bool \<Rightarrow> fault + path list"
  and doSearchChildren :: "exp \<Rightarrow> exp \<Rightarrow> path \<Rightarrow> path list \<Rightarrow> bool \<Rightarrow> fault + path list" where
  "doSearch search pSrc pos li once =
     (case exp_eq search pSrc of
        Inl f \<Rightarrow> Inl f
      | Inr compare \<Rightarrow>
          let li1 = (if compare then li @ [pos] else li)
          in if compare \<and> once then Inr li1
             else if \<not> compare \<or> getOper pSrc \<noteq> opSubscript
                  then doSearchChildren search pSrc pos li1 once
                  else Inr li1)"
| "doSearchChildren search (Unary oper a) pos li once =
     (if oper \<noteq> opInitValueOf then doSearch search a (pos @ [0]) li once else Inr li)"
| "doSearchChildren search (Location oper a) pos li once =
     (if oper \<noteq> opInitValueOf then doSearch search a (pos @ [0]) li once else Inr li)"
| "doSearchChildren search (TypedExp t a) pos li once = doSearch search a (pos @ [0]) li once"
| "doSearchChildren search (RefExp a d) pos li once = doSearch search a (pos @ [0]) li once"
| "doSearchChildren search (Binary oper a b) pos li once =
     (case doSearch search a (pos @ [0]) li once of
        Inl f \<Rightarrow> Inl f
      | Inr li1 \<Rightarrow>
          if once \<and> li1 \<noteq> [] then Inr li1 else doSearch search b (pos @ [1]) li1 once)"
| "doSearchChildren search (Ternary oper a b c) pos li once =
     (case doSearch search a (pos @ [0]) li once of
        Inl f \<Rightarrow> Inl f
      | Inr li1 \<Rightarrow>
          if once \<and> li1 \<noteq> [] then Inr li1
          else (case doSearch search b (pos @ [1]) li1 once of
                  Inl f \<Rightarrow> Inl f
                | Inr li2 \<Rightarrow>
                    if once \<and> li2 \<noteq> [] then Inr li2
                    else doSearch search c (pos @ [2]) li2 once))"
| "doSearchChildren search (Const v c) pos li once = Inr li"
| "doSearchChildren search (Terminal oper) pos li once = Inr li"
| "doSearchChildren search (TypeVal t) pos li once = Inr li"


text \<open>Writing through a slot of the tree under \<open>top\<close>, and reading one.\<close>

fun putAt :: "exp \<Rightarrow> path \<Rightarrow> exp \<Rightarrow> exp" where
  "putAt e [] r = r"
| "putAt (Unary oper a) (i # p) r = Unary oper (putAt a p r)"
| "putAt (Location oper a) (i # p) r = Location oper (putAt a p r)"
| "putAt (TypedExp t a) (i # p) r = TypedExp t (putAt a p r)"
| "putAt (RefExp a d) (i # p) r = RefExp (putAt a p r) d"
| "putAt (Binary oper a b) (i # p) r =
     (if i = 0 then Binary oper (putAt a p r) b else Binary oper a (putAt b p r))"
| "putAt (Ternary oper a b c) (i # p) r =
     (if i = 0 then Ternary oper (putAt a p r) b c
      else if i = 1 then Ternary oper a (putAt b p r) c
      else Ternary oper a b (putAt c p r))"
| "putAt e (i # p) r = e"

fun subAt :: "exp \<Rightarrow> path \<Rightarrow> exp option" where
  "subAt e [] = Some e"
| "subAt (Unary oper a) (i # p) = subAt a p"
| "subAt (Location oper a) (i # p) = subAt a p"
| "subAt (TypedExp t a) (i # p) = subAt a p"
| "subAt (RefExp a d) (i # p) = subAt a p"
| "subAt (Binary oper a b) (i # p) = (if i = 0 then subAt a p else subAt b p)"
| "subAt (Ternary oper a b c) (i # p) =
     (if i = 0 then subAt a p else if i = 1 then subAt b p else subAt c p)"
| "subAt e (i # p) = None"


text \<open>
  \<open>Exp::searchReplaceAll\<close> first tests \<open>this == &search\<close>: when the pattern is the
  searched object itself, it returns a clone of the replacement and sets \<open>change\<close>,
  without a comparison. The model has values, not objects; whether the two are one object is
  the argument \<open>same_object\<close>, which can be true only for a pattern that has the value of
  \<open>this\<close>. Otherwise it assigns a clone of the replacement through every slot of the list,
  in the order found. \<open>doSearch\<close> lists a matching node before the matches inside it (it
  goes on into the children of a match that is not a subscript), so a slot may belong to a
  node that an earlier assignment has already cut off from the tree; the assignment through
  it then changes nothing that the returned root reaches.
\<close>

definition detached :: "path list \<Rightarrow> path \<Rightarrow> bool" where
  "detached written pp \<longleftrightarrow>
     list_ex (\<lambda>w. length w < length pp \<and> take (length w) pp = w) written"

fun replaceSlots :: "path list \<Rightarrow> path list \<Rightarrow> exp \<Rightarrow> exp \<Rightarrow> exp" where
  "replaceSlots [] written r root = root"
| "replaceSlots (pp # rest) written r root =
     replaceSlots rest (pp # written) r
       (if detached written pp then root else putAt root pp (clone r))"

definition searchReplaceAll ::
    "bool \<Rightarrow> exp \<Rightarrow> exp \<Rightarrow> exp \<Rightarrow> bool \<Rightarrow> fault + exp \<times> bool" where
  "searchReplaceAll same_object this search replace once =
     (if same_object then Inr (clone replace, True)
      else (case doSearch search this [] [] False of
              Inl f \<Rightarrow> Inl f
            | Inr li \<Rightarrow>
                if once then (case li of
                                [] \<Rightarrow> Inr (this, False)
                              | pp # rest \<Rightarrow> Inr (putAt this pp (clone replace), True))
                else Inr (replaceSlots li [] replace this, li \<noteq> [])))"

text \<open>\<open>Exp::searchReplace\<close> is \<open>searchReplaceAll\<close> with \<open>once\<close> set.\<close>

definition searchReplace :: "bool \<Rightarrow> exp \<Rightarrow> exp \<Rightarrow> exp \<Rightarrow> fault + exp \<times> bool" where
  "searchReplace same_object this search replace =
     searchReplaceAll same_object this search replace True"


text \<open>\<open>Exp::search\<close> and \<open>Exp::searchAll\<close>; both call \<open>doSearch\<close> with \<open>once = false\<close>.\<close>

definition search :: "exp \<Rightarrow> exp \<Rightarrow> fault + bool \<times> exp option" where
  "search this pat =
     (case doSearch pat this [] [] False of
        Inl f \<Rightarrow> Inl f
      | Inr [] \<Rightarrow> Inr (False, None)
      | Inr (pp # rest) \<Rightarrow> Inr (True, subAt this pp))"

definition searchAll :: "exp \<Rightarrow> exp \<Rightarrow> exp list \<Rightarrow> fault + bool \<times> exp list" where
  "searchAll this pat result =
     (case doSearch pat this [] [] False of
        Inl f \<Rightarrow> Inl f
      | Inr li \<Rightarrow> Inr (li \<noteq> [], result @ map (\<lambda>pp. the (subAt this pp)) li))"


subsection \<open>Notions used to state the properties of search and replace\<close>

text \<open>
  \<open>foundSlots\<close>: the list that \<open>doSearch\<close> returns when none of its comparisons runs
  into the assertion, with \<open>eq_holds\<close> for the outcome of a comparison;
  \<open>doSearch_foundSlots\<close> below shows that \<open>doSearch\<close> returns this list or nothing.
\<close>

fun foundSlots :: "exp \<Rightarrow> exp \<Rightarrow> path \<Rightarrow> path list \<Rightarrow> bool \<Rightarrow> path list"
  and foundChildSlots :: "exp \<Rightarrow> exp \<Rightarrow> path \<Rightarrow> path list \<Rightarrow> bool \<Rightarrow> path list" where
  "foundSlots pat pSrc pos li once =
     (let compare = eq_holds pat pSrc;
          li1 = (if compare then li @ [pos] else li)
      in if compare \<and> once then li1
         else if \<not> compare \<or> getOper pSrc \<noteq> opSubscript
              then foundChildSlots pat pSrc pos li1 once
              else li1)"
| "foundChildSlots pat (Unary oper a) pos li once =
     (if oper \<noteq> opInitValueOf then foundSlots pat a (pos @ [0]) li once else li)"
| "foundChildSlots pat (Location oper a) pos li once =
     (if oper \<noteq> opInitValueOf then foundSlots pat a (pos @ [0]) li once else li)"
| "foundChildSlots pat (TypedExp t a) pos li once = foundSlots pat a (pos @ [0]) li once"
| "foundChildSlots pat (RefExp a d) pos li once = foundSlots pat a (pos @ [0]) li once"
| "foundChildSlots pat (Binary oper a b) pos li once =
     (let li1 = foundSlots pat a (pos @ [0]) li once
      in if once \<and> li1 \<noteq> [] then li1 else foundSlots pat b (pos @ [1]) li1 once)"
| "foundChildSlots pat (Ternary oper a b c) pos li once =
     (let li1 = foundSlots pat a (pos @ [0]) li once
      in if once \<and> li1 \<noteq> [] then li1
         else let li2 = foundSlots pat b (pos @ [1]) li1 once
              in if once \<and> li2 \<noteq> [] then li2 else foundSlots pat c (pos @ [2]) li2 once)"
| "foundChildSlots pat (Const v c) pos li once = li"
| "foundChildSlots pat (Terminal oper) pos li once = li"
| "foundChildSlots pat (TypeVal t) pos li once = li"



text \<open>
  A pattern without long and function constants: a comparison with it as the left operand
  does not reach the assertion of \<open>Const::operator==\<close>.
\<close>

fun plainConst :: "cval \<Rightarrow> bool" where
  "plainConst (LongV a) = False"
| "plainConst (FuncV a) = False"
| "plainConst v = True"

primrec plainConsts :: "exp \<Rightarrow> bool" where
  "plainConsts (Const v c) = plainConst v"
| "plainConsts (Terminal oper) = True"
| "plainConsts (Unary oper a) = plainConsts a"
| "plainConsts (Binary oper a b) = (plainConsts a \<and> plainConsts b)"
| "plainConsts (Ternary oper a b c) = (plainConsts a \<and> plainConsts b \<and> plainConsts c)"
| "plainConsts (TypedExp t a) = plainConsts a"
| "plainConsts (RefExp a d) = plainConsts a"
| "plainConsts (TypeVal t) = True"
| "plainConsts (Location oper a) = plainConsts a"


text \<open>
  \<open>initOnPath e pos\<close>: the position \<open>pos\<close> of \<open>e\<close> lies in the child of a node whose
  \<open>doSearchChildren\<close> is \<open>Unary\<close>'s and whose operator is \<open>opInitValueOf\<close>.
\<close>

fun initOnPath :: "exp \<Rightarrow> path \<Rightarrow> bool" where
  "initOnPath e [] = False"
| "initOnPath (Unary oper a) (i # p) = (oper = opInitValueOf \<or> initOnPath a p)"
| "initOnPath (Location oper a) (i # p) = (oper = opInitValueOf \<or> initOnPath a p)"
| "initOnPath (TypedExp t a) (i # p) = initOnPath a p"
| "initOnPath (RefExp a d) (i # p) = initOnPath a p"
| "initOnPath (Binary oper a b) (i # p) = (if i = 0 then initOnPath a p else initOnPath b p)"
| "initOnPath (Ternary oper a b c) (i # p) =
     (if i = 0 then initOnPath a p else if i = 1 then initOnPath b p else initOnPath c p)"
| "initOnPath e (i # p) = False"

definition okPaths :: "exp \<Rightarrow> path \<Rightarrow> path set" where
  "okPaths e pos = {pos @ p | p. \<not> initOnPath e p}"

definition okChildPaths :: "exp \<Rightarrow> path \<Rightarrow> path set" where
  "okChildPaths e pos = {pos @ i # p | i p. \<not> initOnPath e (i # p)}"


text \<open>\<open>matchOnPath s e pos\<close>: the pattern matches the node at \<open>pos\<close> or one above it.\<close>

fun matchOnPath :: "exp \<Rightarrow> exp \<Rightarrow> path \<Rightarrow> bool" where
  "matchOnPath s e [] = eq_holds s e"
| "matchOnPath s (Unary oper a) (i # p) = (eq_holds s (Unary oper a) \<or> matchOnPath s a p)"
| "matchOnPath s (Location oper a) (i # p) = (eq_holds s (Location oper a) \<or> matchOnPath s a p)"
| "matchOnPath s (TypedExp t a) (i # p) = (eq_holds s (TypedExp t a) \<or> matchOnPath s a p)"
| "matchOnPath s (RefExp a d) (i # p) = (eq_holds s (RefExp a d) \<or> matchOnPath s a p)"
| "matchOnPath s (Binary oper a b) (i # p) =
     (eq_holds s (Binary oper a b) \<or> (if i = 0 then matchOnPath s a p else matchOnPath s b p))"
| "matchOnPath s (Ternary oper a b c) (i # p) =
     (eq_holds s (Ternary oper a b c)
      \<or> (if i = 0 then matchOnPath s a p else if i = 1 then matchOnPath s b p
          else matchOnPath s c p))"
| "matchOnPath s e (i # p) = eq_holds s e"


text \<open>The slots that \<open>search\<close>, \<open>searchAll\<close> and \<open>searchReplaceAll\<close> work on.\<close>

definition hits :: "exp \<Rightarrow> exp \<Rightarrow> path list" where
  "hits s e = foundSlots s e [] [] False"


text \<open>
  Replacement written as a recursion over the tree: a matching node becomes the
  replacement, any other node keeps its operator and has its searched children replaced.
  \<open>searchReplaceAll_replR\<close> below shows that the loop over the slots computes this.
\<close>

fun replR :: "exp \<Rightarrow> exp \<Rightarrow> exp \<Rightarrow> exp" where
  "replR s r (Unary oper a) =
     (if eq_holds s (Unary oper a) then r
      else if oper \<noteq> opInitValueOf then Unary oper (replR s r a) else Unary oper a)"
| "replR s r (Location oper a) =
     (if eq_holds s (Location oper a) then r
      else if oper \<noteq> opInitValueOf then Location oper (replR s r a) else Location oper a)"
| "replR s r (TypedExp t a) =
     (if eq_holds s (TypedExp t a) then r else TypedExp t (replR s r a))"
| "replR s r (RefExp a d) =
     (if eq_holds s (RefExp a d) then r else RefExp (replR s r a) d)"
| "replR s r (Binary oper a b) =
     (if eq_holds s (Binary oper a b) then r else Binary oper (replR s r a) (replR s r b))"
| "replR s r (Ternary oper a b c) =
     (if eq_holds s (Ternary oper a b c) then r
      else Ternary oper (replR s r a) (replR s r b) (replR s r c))"
| "replR s r e = (if eq_holds s e then r else e)"


text \<open>
  The families of operators, as the \<open>print\<close> functions of \<open>Terminal\<close>, \<open>Unary\<close>,
  \<open>Binary\<close> and \<open>Ternary\<close> and the assertion in the constructor of \<open>Location\<close> list
  them, and the expressions that the lifter stores: each node has an operator of the family
  of its class, no operator is a wildcard, and a constant is an integer, a string or a double
  that is not a NaN, without conscript.
\<close>

definition wildOper :: "OPER \<Rightarrow> bool" where
  "wildOper oper \<longleftrightarrow> oper \<in> {opWild, opWildIntConst, opWildStrConst, opWildMemOf, opWildRegOf, opWildAddrOf}"

definition terminalOper :: "OPER \<Rightarrow> bool" where
  "terminalOper oper \<longleftrightarrow> oper \<in> {opPC, opDF, opAFP, opNil, opTrue, opFalse,
     opWild, opWildIntConst, opWildStrConst, opWildMemOf, opWildRegOf, opWildAddrOf}"

definition unaryOper :: "OPER \<Rightarrow> bool" where
  "unaryOper oper \<longleftrightarrow> oper \<in> {opNot, opLNot, opNeg, opFNeg, opAddrOf, opVar, opInitValueOf}"

definition locationOper :: "OPER \<Rightarrow> bool" where
  "locationOper oper \<longleftrightarrow> oper \<in> {opRegOf, opMemOf, opLocal, opGlobal, opParam, opTemp}"

definition binaryOper :: "OPER \<Rightarrow> bool" where
  "binaryOper oper \<longleftrightarrow> oper \<in> {opPlus, opMinus, opMult, opMults, opDiv, opDivs, opMod, opMods,
     opFMinus, opAnd, opOr, opBitAnd, opBitOr, opBitXor,
     opEquals, opNotEqual, opLess, opGtr, opLessEq, opGtrEq,
     opLessUns, opGtrUns, opLessEqUns, opGtrEqUns,
     opShiftL, opShiftR, opShiftRA, opSize, opList, opMemberAccess, opArrayIndex}"

definition ternaryOper :: "OPER \<Rightarrow> bool" where
  "ternaryOper oper \<longleftrightarrow> oper \<in> {opTern, opTruncu, opTruncs, opZfill, opSgnEx, opFsize, opItof}"

fun storedConst :: "cval \<Rightarrow> bool" where
  "storedConst (IntV k) = True"
| "storedConst (StrV s) = True"
| "storedConst (FltV w) = (\<not> flt_isnan w)"
| "storedConst _ = False"

primrec stored :: "exp \<Rightarrow> bool" where
  "stored (Const v c) = (c = 0 \<and> storedConst v)"
| "stored (Terminal oper) = (terminalOper oper \<and> \<not> wildOper oper)"
| "stored (Unary oper a) = (unaryOper oper \<and> stored a)"
| "stored (Binary oper a b) = (binaryOper oper \<and> stored a \<and> stored b)"
| "stored (Ternary oper a b c) = (ternaryOper oper \<and> stored a \<and> stored b \<and> stored c)"
| "stored (TypedExp t a) = stored a"
| "stored (RefExp a d) = stored a"
| "stored (TypeVal t) = True"
| "stored (Location oper a) = (locationOper oper \<and> stored a)"

section \<open>Partition of a sum into terms\<close>

text \<open>
  \<open>Exp::partitionTerms\<close> switches on the operator of the node and then takes the children
  with \<open>getSubExp1\<close> and \<open>getSubExp2\<close>. The three lists are passed in and returned; the
  vector of integers holds 32 bit values and \<open>-k\<close> wraps. The function is not virtual: on a
  node whose class lacks the child that the operator promises, the accessor of the base class
  yields a null pointer and the recursive call through it faults, and a node with the operator
  \<open>opIntConst\<close> that is not a \<open>Const\<close> is cast to one.
\<close>

type_synonym terms = "exp list \<times> exp list \<times> 32 word list"

definition pushTerm :: "exp \<Rightarrow> terms \<Rightarrow> bool \<Rightarrow> terms" where
  "pushTerm e ts negate =
     (case ts of (positives, negatives, integers) \<Rightarrow>
        if negate then (positives, negatives @ [e], integers)
        else (positives @ [e], negatives, integers))"

definition pushInt :: "32 word \<Rightarrow> terms \<Rightarrow> bool \<Rightarrow> terms" where
  "pushInt k ts negate =
     (case ts of (positives, negatives, integers) \<Rightarrow>
        if negate then (positives, negatives, integers @ [- k])
        else (positives, negatives, integers @ [k]))"

fun partitionTerms :: "exp \<Rightarrow> terms \<Rightarrow> bool \<Rightarrow> fault + terms" where
  "partitionTerms (Binary oper p1 p2) ts negate =
     (if oper = opPlus then
        (case partitionTerms p1 ts negate of
           Inl f \<Rightarrow> Inl f
         | Inr ts1 \<Rightarrow> partitionTerms p2 ts1 negate)
      else if oper = opMinus then
        (case partitionTerms p1 ts negate of
           Inl f \<Rightarrow> Inl f
         | Inr ts1 \<Rightarrow> partitionTerms p2 ts1 (\<not> negate))
      else if oper = opTypedExp then partitionTerms p1 ts negate
      else if oper = opIntConst then Inl BadCast
      else Inr (pushTerm (Binary oper p1 p2) ts negate))"
| "partitionTerms (Ternary oper p1 p2 p3) ts negate =
     (if oper = opPlus then
        (case partitionTerms p1 ts negate of
           Inl f \<Rightarrow> Inl f
         | Inr ts1 \<Rightarrow> partitionTerms p2 ts1 negate)
      else if oper = opMinus then
        (case partitionTerms p1 ts negate of
           Inl f \<Rightarrow> Inl f
         | Inr ts1 \<Rightarrow> partitionTerms p2 ts1 (\<not> negate))
      else if oper = opTypedExp then partitionTerms p1 ts negate
      else if oper = opIntConst then Inl BadCast
      else Inr (pushTerm (Ternary oper p1 p2 p3) ts negate))"
| "partitionTerms (Unary oper p1) ts negate =
     (if oper = opPlus \<or> oper = opMinus then
        (case partitionTerms p1 ts negate of
           Inl f \<Rightarrow> Inl f
         | Inr ts1 \<Rightarrow> Inl NullPointer)
      else if oper = opTypedExp then partitionTerms p1 ts negate
      else if oper = opIntConst then Inl BadCast
      else Inr (pushTerm (Unary oper p1) ts negate))"
| "partitionTerms (Location oper p1) ts negate =
     (if oper = opPlus \<or> oper = opMinus then
        (case partitionTerms p1 ts negate of
           Inl f \<Rightarrow> Inl f
         | Inr ts1 \<Rightarrow> Inl NullPointer)
      else if oper = opTypedExp then partitionTerms p1 ts negate
      else if oper = opIntConst then Inl BadCast
      else Inr (pushTerm (Location oper p1) ts negate))"
| "partitionTerms (TypedExp t p1) ts negate = partitionTerms p1 ts negate"
| "partitionTerms (RefExp p1 d) ts negate = Inr (pushTerm (RefExp p1 d) ts negate)"
| "partitionTerms (Const v c) ts negate =
     (case v of
        IntV k \<Rightarrow> Inr (pushInt k ts negate)
      | _ \<Rightarrow> Inr (pushTerm (Const v c) ts negate))"
| "partitionTerms (Terminal oper) ts negate =
     (if oper = opPlus \<or> oper = opMinus \<or> oper = opTypedExp then Inl NullPointer
      else if oper = opIntConst then Inl BadCast
      else Inr (pushTerm (Terminal oper) ts negate))"
| "partitionTerms (TypeVal t) ts negate = Inr (pushTerm (TypeVal t) ts negate)"

text \<open>
  The value of a tree of \<open>+\<close> and \<open>-\<close>, as the specification reads it: 32 bit
  two's complement arithmetic, a typed wrapper transparent, an integer constant its value,
  and every other subterm the value \<open>\<rho>\<close> gives it.
\<close>

fun spec_sum_value :: "(exp \<Rightarrow> 32 word) \<Rightarrow> exp \<Rightarrow> 32 word" where
  "spec_sum_value \<rho> (Binary oper a b) =
     (if oper = opPlus then spec_sum_value \<rho> a + spec_sum_value \<rho> b
      else if oper = opMinus then spec_sum_value \<rho> a - spec_sum_value \<rho> b
      else \<rho> (Binary oper a b))"
| "spec_sum_value \<rho> (TypedExp t a) = spec_sum_value \<rho> a"
| "spec_sum_value \<rho> (Const v c) = (case v of IntV k \<Rightarrow> k | _ \<Rightarrow> \<rho> (Const v c))"
| "spec_sum_value \<rho> e = \<rho> e"

text \<open>\<open>\<Sigma> pos - \<Sigma> neg + \<Sigma> int\<close> of a partition.\<close>

definition terms_value :: "(exp \<Rightarrow> 32 word) \<Rightarrow> terms \<Rightarrow> 32 word" where
  "terms_value \<rho> ts =
     (case ts of (positives, negatives, integers) \<Rightarrow>
        sum_list (map \<rho> positives) - sum_list (map \<rho> negatives) + sum_list integers)"

text \<open>
  The trees on which \<open>partitionTerms\<close> meets no node of the wrong class: a node with one
  of the operators it switches on is of the class that the operator belongs to.
\<close>

fun sum_shaped :: "exp \<Rightarrow> bool" where
  "sum_shaped (Binary oper a b) =
     (if oper = opPlus \<or> oper = opMinus then sum_shaped a \<and> sum_shaped b
      else oper \<noteq> opTypedExp \<and> oper \<noteq> opIntConst)"
| "sum_shaped (TypedExp t a) = sum_shaped a"
| "sum_shaped (Ternary oper a b c) =
     (oper \<noteq> opPlus \<and> oper \<noteq> opMinus \<and> oper \<noteq> opTypedExp \<and> oper \<noteq> opIntConst)"
| "sum_shaped (Unary oper a) =
     (oper \<noteq> opPlus \<and> oper \<noteq> opMinus \<and> oper \<noteq> opTypedExp \<and> oper \<noteq> opIntConst)"
| "sum_shaped (Location oper a) =
     (oper \<noteq> opPlus \<and> oper \<noteq> opMinus \<and> oper \<noteq> opTypedExp \<and> oper \<noteq> opIntConst)"
| "sum_shaped (Terminal oper) =
     (oper \<noteq> opPlus \<and> oper \<noteq> opMinus \<and> oper \<noteq> opTypedExp \<and> oper \<noteq> opIntConst)"
| "sum_shaped e = True"
section \<open>Simplification\<close>

subsection \<open>Outcomes, collaborators and small helpers\<close>

text \<open>
  \<open>polySimplify\<close> returns the simplified expression and the flag \<open>bMod\<close>, which it
  receives by reference. A run can also stop in a fault: an integer division by zero or the
  division of the least integer by -1, the assertion of a comparison, a cast of a node to a class it does not have, a null
  pointer or the wildcard definition used as a pointer. Other signed arithmetic wraps around
  in 32 bits. \<open>OutOfFuel\<close> belongs to the model only: the recursion is bounded by a
  counter, and a claim that \<open>simplify\<close> returns is a claim that some counter is enough.
\<close>

datatype 'a outcome = OutOfFuel | Fault fault | Ok 'a

datatype rule = Fired exp | Faulted fault | NoRule

text \<open>The first rule of a list that applies; the rules are tried in the order of the source.\<close>

fun firstRule :: "rule list \<Rightarrow> rule" where
  "firstRule [] = NoRule"
| "firstRule (r # rs) = (case r of NoRule \<Rightarrow> firstRule rs | _ \<Rightarrow> r)"

text \<open>
  A rule whose condition ends in a comparison \<open>*a == *b\<close>: the comparison may run into
  its assertion, which ends the run. \<open>andAlsoEq\<close> and \<open>orElseEq\<close> are \<open>&&\<close> and
  \<open>||\<close> on two comparisons, the second made only when the first does not decide.
\<close>

definition whenEq :: "fault + bool \<Rightarrow> rule \<Rightarrow> rule" where
  "whenEq c r = (case c of Inl f \<Rightarrow> Faulted f | Inr b \<Rightarrow> if b then r else NoRule)"

definition andAlsoEq :: "fault + bool \<Rightarrow> fault + bool \<Rightarrow> fault + bool" where
  "andAlsoEq c d = (case c of Inl f \<Rightarrow> Inl f | Inr b \<Rightarrow> if b then d else Inr False)"

definition orElseEq :: "fault + bool \<Rightarrow> fault + bool \<Rightarrow> fault + bool" where
  "orElseEq c d = (case c of Inl f \<Rightarrow> Inl f | Inr b \<Rightarrow> if b then Inr True else d)"

text \<open>
  What the simplifier asks of code that is not in exp.cpp, and of the machine it runs on:
  \<^item> \<open>base_clears\<close>: \<open>Exp::polySimplify\<close>, the version that \<open>Const\<close>, \<open>Terminal\<close> and
    \<open>TypeVal\<close> inherit, is defined in the header. It returns the node; whether it leaves
    \<open>bMod\<close> as it is or clears it is this parameter.
  \<^item> \<open>layout\<close>: for the definition \<open>def\<close> of a subscripted expression, the expression and
    an offset \<open>n\<close>: \<open>NoCompound\<close> when \<open>def->getTypeFor\<close> gives no type or one that is
    not a pointer to a compound; \<open>NoMember\<close> when \<open>convertFromOffsetToCompound\<close> returns
    the null pointer (the offset is beyond the compound, or the member there has no name or
    is padding); else the steps (member names and array indices) that \<open>accessMember\<close>
    takes through the compound type, or the fault of one of its assertions.
  \<^item> \<open>floatConstant\<close>: \<open>prog->getFloatConstant(u, ok, size)\<close> for the procedure of a
    location, with \<open>None\<close> when the location has no procedure or \<open>ok\<close> is false.
  \<^item> \<open>floatBits\<close>: the double that \<open>*(float *)&n\<close> converts to.
  \<^item> \<open>wideShiftL\<close>, \<open>wideShiftR\<close>: what \<open>x << c\<close> and \<open>x >> c\<close> on \<open>int\<close> give for
    a count \<open>c\<close> outside 0..31. The language leaves that undefined; the compiled code
    returns what the shift instruction of the machine returns.
\<close>

datatype member_step = Member string | Index "32 word"

datatype layout_answer =
    NoCompound
  | NoMember
  | Members "member_step list"
  | LayoutFault fault

record env =
  base_clears :: bool
  layout :: "stmt \<Rightarrow> exp \<Rightarrow> 32 word \<Rightarrow> layout_answer"
  floatConstant :: "32 word \<Rightarrow> 32 word option \<Rightarrow> 64 word option"
  floatBits :: "32 word \<Rightarrow> 64 word"
  wideShiftL :: "32 word \<Rightarrow> 32 word \<Rightarrow> 32 word"
  wideShiftR :: "32 word \<Rightarrow> 32 word \<Rightarrow> 32 word"

text \<open>
  Modelled from the spec: the predicates \<open>isIntConst\<close>, \<open>isBoolConst\<close>, \<open>isTrue\<close>,
  \<open>isFalse\<close>, \<open>isAddrOf\<close>, \<open>isSubscript\<close>, \<open>isGlobal\<close> and \<open>isLocation\<close> of the
  header, which the spec describes as cheap predicates on the tag; \<open>isLocation\<close> is the tag
  set of the class \<open>Location\<close>.
\<close>

definition isIntConst :: "exp \<Rightarrow> bool" where
  "isIntConst e \<longleftrightarrow> getOper e = opIntConst"

definition isBoolConst :: "exp \<Rightarrow> bool" where
  "isBoolConst e \<longleftrightarrow> getOper e = opTrue \<or> getOper e = opFalse"

definition isTrue :: "exp \<Rightarrow> bool" where
  "isTrue e \<longleftrightarrow> getOper e = opTrue"

definition isFalse :: "exp \<Rightarrow> bool" where
  "isFalse e \<longleftrightarrow> getOper e = opFalse"

definition isAddrOf :: "exp \<Rightarrow> bool" where
  "isAddrOf e \<longleftrightarrow> getOper e = opAddrOf"

definition isSubscript :: "exp \<Rightarrow> bool" where
  "isSubscript e \<longleftrightarrow> getOper e = opSubscript"

definition isGlobal :: "exp \<Rightarrow> bool" where
  "isGlobal e \<longleftrightarrow> getOper e = opGlobal"

definition isLocation :: "exp \<Rightarrow> bool" where
  "isLocation e \<longleftrightarrow>
     getOper e = opRegOf \<or> getOper e = opMemOf \<or> getOper e = opLocal \<or> getOper e = opGlobal
     \<or> getOper e = opParam \<or> getOper e = opTemp"

text \<open>\<open>Exp::isRegN\<close>.\<close>

definition isRegN :: "exp \<Rightarrow> 32 word \<Rightarrow> bool" where
  "isRegN e n \<longleftrightarrow>
     getOper e = opRegOf \<and> (case getSubExp1 e of Some a \<Rightarrow> getInt a = Some n | None \<Rightarrow> False)"

text \<open>
  \<open>setOper\<close>, \<open>Const::setInt\<close> and \<open>setSubExp2\<close> change a node in place; here they
  return the changed node. The operator of a \<open>Const\<close>, \<open>TypedExp\<close>, \<open>RefExp\<close> or
  \<open>TypeVal\<close> is fixed by its class in the model; the source never sets it.
\<close>

fun setOper :: "OPER \<Rightarrow> exp \<Rightarrow> exp" where
  "setOper oper (Terminal x) = Terminal oper"
| "setOper oper (Unary x a) = Unary oper a"
| "setOper oper (Binary x a b) = Binary oper a b"
| "setOper oper (Ternary x a b c) = Ternary oper a b c"
| "setOper oper (Location x a) = Location oper a"
| "setOper oper e = e"

fun setInt :: "32 word \<Rightarrow> exp \<Rightarrow> exp" where
  "setInt k (Const (IntV x) c) = Const (IntV k) c"
| "setInt k e = e"

fun setSubExp2 :: "exp \<Rightarrow> exp \<Rightarrow> exp" where
  "setSubExp2 (Binary oper a b) e = Binary oper a e"
| "setSubExp2 (Ternary oper a b c) e = Ternary oper a e c"
| "setSubExp2 x e = x"

text \<open>
  The source tests the tag of a child for \<open>opIntConst\<close> and then casts the child to
  \<open>Const\<close> to read or set the integer. Only the constructors of \<open>Const\<close> set that tag,
  and the model reads the integer with \<open>getInt\<close>, which has a value exactly on the integer
  constants. \<open>int1\<close>, \<open>int2\<close>: the integer of the first and second child of a node.
\<close>

definition int1 :: "exp \<Rightarrow> 32 word option" where
  "int1 e = (case getSubExp1 e of Some a \<Rightarrow> getInt a | None \<Rightarrow> None)"

definition int2 :: "exp \<Rightarrow> 32 word option" where
  "int2 e = (case getSubExp2 e of Some b \<Rightarrow> getInt b | None \<Rightarrow> None)"

definition setInt2 :: "32 word \<Rightarrow> exp \<Rightarrow> exp" where
  "setInt2 k e = (case getSubExp2 e of Some b \<Rightarrow> setSubExp2 e (setInt k b) | None \<Rightarrow> e)"

text \<open>The operator of the first and second child, \<open>opNil\<close> standing for no child.\<close>

definition oper1 :: "exp \<Rightarrow> OPER option" where
  "oper1 e = map_option getOper (getSubExp1 e)"

definition oper2 :: "exp \<Rightarrow> OPER option" where
  "oper2 e = map_option getOper (getSubExp2 e)"

subsection \<open>Folding two integer constants\<close>

definition boolInt :: "bool \<Rightarrow> 32 word" where
  "boolInt b = (if b then 1 else 0)"

text \<open>
  \<open>x << c\<close> and \<open>x >> c\<close> on \<open>int\<close>. For a count from 0 to 31 the left shift is
  taken to wrap around in 32 bits and the right shift keeps the sign of \<open>x\<close>.
\<close>

definition shiftCount :: "32 word \<Rightarrow> nat option" where
  "shiftCount c = (if 0 \<le> sint c \<and> sint c < 32 then Some (unat c) else None)"

definition shiftL :: "env \<Rightarrow> 32 word \<Rightarrow> 32 word \<Rightarrow> 32 word" where
  "shiftL \<Gamma> x c = (case shiftCount c of Some n \<Rightarrow> push_bit n x | None \<Rightarrow> wideShiftL \<Gamma> x c)"

definition shiftR :: "env \<Rightarrow> 32 word \<Rightarrow> 32 word \<Rightarrow> 32 word" where
  "shiftR \<Gamma> x c =
     (case shiftCount c of Some n \<Rightarrow> signed_drop_bit n x | None \<Rightarrow> wideShiftR \<Gamma> x c)"

text \<open>\<open>k1 / k2\<close> and \<open>k1 % k2\<close> on \<open>int\<close>: they truncate towards zero.\<close>

definition sdiv32 :: "32 word \<Rightarrow> 32 word \<Rightarrow> fault + 32 word" where
  "sdiv32 k1 k2 =
     (if k2 = 0 then Inl DivisionByZero
      else if k1 = 0x80000000 \<and> k2 = - 1 then Inl DivisionOverflow
      else Inr (word_of_int (sint k1 sdiv sint k2)))"

definition smod32 :: "32 word \<Rightarrow> 32 word \<Rightarrow> fault + 32 word" where
  "smod32 k1 k2 =
     (if k2 = 0 then Inl DivisionByZero
      else if k1 = 0x80000000 \<and> k2 = - 1 then Inl DivisionOverflow
      else Inr (word_of_int (sint k1 smod sint k2)))"

text \<open>
  The switch of the first rule of \<open>Binary::polySimplify\<close>; \<open>None\<close> is its \<open>default\<close>,
  which clears \<open>change\<close>.
\<close>

definition foldConst :: "env \<Rightarrow> OPER \<Rightarrow> 32 word \<Rightarrow> 32 word \<Rightarrow> (fault + 32 word) option" where
  "foldConst \<Gamma> oper k1 k2 =
     (if oper = opPlus then Some (Inr (k1 + k2))
      else if oper = opMinus then Some (Inr (k1 - k2))
      else if oper = opDiv then Some (if k2 = 0 then Inl DivisionByZero else Inr (k1 div k2))
      else if oper = opDivs then Some (sdiv32 k1 k2)
      else if oper = opMod then Some (if k2 = 0 then Inl DivisionByZero else Inr (k1 mod k2))
      else if oper = opMods then Some (smod32 k1 k2)
      else if oper = opMult then Some (Inr (k1 * k2))
      else if oper = opMults then Some (Inr (k1 * k2))
      else if oper = opShiftL then Some (Inr (if 32 \<le> sint k2 then 0 else shiftL \<Gamma> k1 k2))
      else if oper = opShiftR then Some (Inr (shiftR \<Gamma> k1 k2))
      else if oper = opShiftRA then
        Some (Inr (shiftR \<Gamma> k1 k2 OR shiftL \<Gamma> (shiftL \<Gamma> 1 k2 - 1) (32 - k2)))
      else if oper = opBitOr then Some (Inr (k1 OR k2))
      else if oper = opBitAnd then Some (Inr (k1 AND k2))
      else if oper = opBitXor then Some (Inr (k1 XOR k2))
      else if oper = opEquals then Some (Inr (boolInt (k1 = k2)))
      else if oper = opNotEqual then Some (Inr (boolInt (k1 \<noteq> k2)))
      else if oper = opLess then Some (Inr (boolInt (sint k1 < sint k2)))
      else if oper = opGtr then Some (Inr (boolInt (sint k1 > sint k2)))
      else if oper = opLessEq then Some (Inr (boolInt (sint k1 \<le> sint k2)))
      else if oper = opGtrEq then Some (Inr (boolInt (sint k1 \<ge> sint k2)))
      else if oper = opLessUns then Some (Inr (boolInt (k1 < k2)))
      else if oper = opGtrUns then Some (Inr (boolInt (k1 > k2)))
      else if oper = opLessEqUns then Some (Inr (boolInt (k1 \<le> k2)))
      else if oper = opGtrEqUns then Some (Inr (boolInt (k1 \<ge> k2)))
      else None)"

subsection \<open>The rules of \<open>Unary::polySimplify\<close>\<close>

text \<open>The comparison that \<open>not\<close> turns a comparison into.\<close>

definition negatedComparison :: "OPER \<Rightarrow> OPER option" where
  "negatedComparison oper =
     (if oper = opEquals then Some opNotEqual
      else if oper = opNotEqual then Some opEquals
      else if oper = opLess then Some opGtrEq
      else if oper = opLessEq then Some opGtr
      else if oper = opGtr then Some opLessEq
      else if oper = opGtrEq then Some opLess
      else if oper = opLessUns then Some opGtrEqUns
      else if oper = opLessEqUns then Some opGtrUns
      else if oper = opGtrUns then Some opLessEqUns
      else if oper = opGtrEqUns then Some opLessUns
      else None)"

text \<open>
  What \<open>Unary::polySimplify\<close> does after it has simplified the child: it returns another
  node with \<open>bMod\<close> set, faults, simplifies the child once more (for \<open>opMemOf\<close> and
  \<open>opRegOf\<close>), or returns the node as it is.
\<close>

datatype unary_step = UReturn exp | UFault fault | UAgain | UKeep

definition unaryFoldInt :: "OPER \<Rightarrow> 32 word \<Rightarrow> 32 word" where
  "unaryFoldInt oper k =
     (if oper = opNeg then - k
      else if oper = opNot then NOT k
      else if oper = opLNot then boolInt (k = 0)
      else k)"

definition unaryStep :: "OPER \<Rightarrow> exp \<Rightarrow> unary_step" where
  "unaryStep oper s1 =
     (case (if oper = opNot \<or> oper = opLNot then negatedComparison (getOper s1) else None) of
        Some oper' \<Rightarrow> UReturn (setOper oper' s1)
      | None \<Rightarrow>
          if oper = opNeg \<or> oper = opNot \<or> oper = opLNot \<or> oper = opSize then
            (if getOper s1 = opIntConst then
               (case getInt s1 of
                  Some k \<Rightarrow> UReturn (setInt (unaryFoldInt oper k) s1)
                | None \<Rightarrow> UFault BadCast)
             else if oper = getOper s1 then
               (case getSubExp1 s1 of Some x \<Rightarrow> UReturn x | None \<Rightarrow> UFault NullPointer)
             else UKeep)
          else if oper = opAddrOf then
            (if getOper s1 = opMemOf then
               (case getSubExp1 s1 of Some x \<Rightarrow> UReturn x | None \<Rightarrow> UFault NullPointer)
             else UKeep)
          else if oper = opMemOf \<or> oper = opRegOf then UAgain
          else UKeep)"

text \<open>The rule that \<open>Location::polySimplify\<close> adds: \<open>m[a[x]]\<close> becomes \<open>x\<close>.\<close>

definition locationRule :: "exp \<Rightarrow> rule" where
  "locationRule res =
     (if getOper res = opMemOf then
        (case getSubExp1 res of
           Some a \<Rightarrow>
             if getOper a = opAddrOf then
               (case getSubExp1 a of Some x \<Rightarrow> Fired x | None \<Rightarrow> Faulted NullPointer)
             else NoRule
         | None \<Rightarrow> Faulted NullPointer)
      else NoRule)"

subsection \<open>The rules of \<open>Binary::polySimplify\<close>\<close>

text \<open>
  Each definition is one \<open>if\<close> of the source, applied to the operator and the two
  simplified children, and named after the comment it carries there. \<open>Fired\<close> is a return
  with \<open>bMod\<close> set.
\<close>

definition rule_fold :: "env \<Rightarrow> OPER \<Rightarrow> exp \<Rightarrow> exp \<Rightarrow> rule" where
  "rule_fold \<Gamma> oper s1 s2 =
     (case (getInt s1, getInt s2) of
        (Some k1, Some k2) \<Rightarrow>
          (case foldConst \<Gamma> oper k1 k2 of
             Some (Inr k) \<Rightarrow> Fired (Const_get k)
           | Some (Inl f) \<Rightarrow> Faulted f
           | None \<Rightarrow> NoRule)
      | _ \<Rightarrow> NoRule)"

definition rule_xor_minus_self :: "OPER \<Rightarrow> exp \<Rightarrow> exp \<Rightarrow> rule" where
  "rule_xor_minus_self oper s1 s2 =
     (if oper = opBitXor \<or> oper = opMinus then whenEq (exp_eq s1 s2) (Fired (Const_get 0))
      else NoRule)"

definition rule_or_and_self :: "OPER \<Rightarrow> exp \<Rightarrow> exp \<Rightarrow> rule" where
  "rule_or_and_self oper s1 s2 =
     (if oper = opBitOr \<or> oper = opBitAnd then whenEq (exp_eq s1 s2) (Fired s1) else NoRule)"

definition rule_equals_self :: "OPER \<Rightarrow> exp \<Rightarrow> exp \<Rightarrow> rule" where
  "rule_equals_self oper s1 s2 =
     (if oper = opEquals then whenEq (exp_eq s1 s2) (Fired (Terminal opTrue)) else NoRule)"

text \<open>
  The three commutations. They swap the children and the copies \<open>opSub1\<close>, \<open>opSub2\<close> of
  their operators and do not set \<open>bMod\<close>.
\<close>

definition commute_int_left :: "OPER \<Rightarrow> exp \<times> exp \<Rightarrow> exp \<times> exp" where
  "commute_int_left oper ss =
     (case ss of (s1, s2) \<Rightarrow>
        if getOper s1 = opIntConst
           \<and> (oper = opPlus \<or> oper = opMult \<or> oper = opMults \<or> oper = opBitOr \<or> oper = opBitAnd)
        then (s2, s1) else (s1, s2))"

definition commute_bool_left :: "OPER \<Rightarrow> exp \<times> exp \<Rightarrow> exp \<times> exp" where
  "commute_bool_left oper ss =
     (case ss of (s1, s2) \<Rightarrow>
        if isBoolConst s1 \<and> \<not> isBoolConst s2 \<and> (oper = opAnd \<or> oper = opOr)
        then (s2, s1) else (s1, s2))"

definition isAddrOfSubscriptedGlobal :: "exp \<Rightarrow> bool" where
  "isAddrOfSubscriptedGlobal e \<longleftrightarrow>
     isAddrOf e \<and>
     (case getSubExp1 e of
        Some x \<Rightarrow> isSubscript x \<and> (case getSubExp1 x of Some g \<Rightarrow> isGlobal g | None \<Rightarrow> False)
      | None \<Rightarrow> False)"

definition commute_global_right :: "OPER \<Rightarrow> exp \<times> exp \<Rightarrow> exp \<times> exp" where
  "commute_global_right oper ss =
     (case ss of (s1, s2) \<Rightarrow>
        if isAddrOfSubscriptedGlobal s2 \<and> oper = opPlus then (s2, s1) else (s1, s2))"

definition commutations :: "OPER \<Rightarrow> exp \<times> exp \<Rightarrow> exp \<times> exp" where
  "commutations oper ss =
     commute_global_right oper (commute_bool_left oper (commute_int_left oper ss))"

text \<open>\<open>(x + a) + b\<close> becomes \<open>x + (a+b)\<close>, the sum stored in the constant \<open>a\<close>.\<close>

definition rule_plus_plus_const :: "OPER \<Rightarrow> exp \<Rightarrow> exp \<Rightarrow> rule" where
  "rule_plus_plus_const oper s1 s2 =
     (if oper = opPlus \<and> getOper s1 = opPlus then
        (case (getInt s2, int2 s1) of
           (Some n, Some a) \<Rightarrow> Fired (setInt2 (a + n) s1)
         | _ \<Rightarrow> NoRule)
      else NoRule)"

text \<open>\<open>(x - a) + b\<close> becomes \<open>x + (-a+b)\<close>.\<close>

definition rule_minus_plus_const :: "OPER \<Rightarrow> exp \<Rightarrow> exp \<Rightarrow> rule" where
  "rule_minus_plus_const oper s1 s2 =
     (if oper = opPlus \<and> getOper s1 = opMinus then
        (case (getInt s2, int2 s1) of
           (Some n, Some a) \<Rightarrow> Fired (setInt2 (- a + n) (setOper opPlus s1))
         | _ \<Rightarrow> NoRule)
      else NoRule)"

text \<open>\<open>(x * k) - x\<close> becomes \<open>x * (k-1)\<close>, and the same with \<open>+\<close>.\<close>

definition rule_mult_minus_self :: "OPER \<Rightarrow> exp \<Rightarrow> exp \<Rightarrow> rule" where
  "rule_mult_minus_self oper s1 s2 =
     (if (oper = opMinus \<or> oper = opPlus) \<and> (getOper s1 = opMults \<or> getOper s1 = opMult) then
        (case getSubExp1 s1 of
           Some x \<Rightarrow>
             whenEq (exp_eq s2 x)
               (case getSubExp2 s1 of
                  Some k \<Rightarrow> Fired (setSubExp2 s1 (Binary oper k (Const_get 1)))
                | None \<Rightarrow> Faulted NullPointer)
         | None \<Rightarrow> Faulted NullPointer)
      else NoRule)"

text \<open>\<open>x + (x * k)\<close> becomes \<open>x * (k+1)\<close>.\<close>

definition rule_self_plus_mult :: "OPER \<Rightarrow> exp \<Rightarrow> exp \<Rightarrow> rule" where
  "rule_self_plus_mult oper s1 s2 =
     (if oper = opPlus \<and> (getOper s2 = opMults \<or> getOper s2 = opMult) then
        (case getSubExp1 s2 of
           Some x \<Rightarrow>
             whenEq (exp_eq s1 x)
               (case getSubExp2 s2 of
                  Some k \<Rightarrow> Fired (setSubExp2 s2 (Binary opPlus k (Const_get 1)))
                | None \<Rightarrow> Faulted NullPointer)
         | None \<Rightarrow> Faulted NullPointer)
      else NoRule)"

text \<open>
  \<open>a + -K\<close> becomes \<open>a - K\<close> and \<open>a - -K\<close> becomes \<open>a + K\<close>, for a negative constant:
  the operator and the constant change, \<open>bMod\<close> does not.
\<close>

definition flip_negative_const :: "OPER \<Rightarrow> exp \<Rightarrow> OPER \<times> exp" where
  "flip_negative_const oper s2 =
     (case getInt s2 of
        Some k \<Rightarrow>
          if (oper = opPlus \<or> oper = opMinus) \<and> sint k < 0
          then (if oper = opPlus then opMinus else opPlus, setInt (- k) s2)
          else (oper, s2)
      | None \<Rightarrow> (oper, s2))"

definition rule_zero_right :: "OPER \<Rightarrow> exp \<Rightarrow> exp \<Rightarrow> rule" where
  "rule_zero_right oper s1 s2 =
     (if (oper = opPlus \<or> oper = opMinus \<or> oper = opBitOr) \<and> getInt s2 = Some 0
      then Fired s1 else NoRule)"

definition rule_or_false :: "OPER \<Rightarrow> exp \<Rightarrow> exp \<Rightarrow> rule" where
  "rule_or_false oper s1 s2 = (if oper = opOr \<and> isFalse s2 then Fired s1 else NoRule)"

definition rule_times_zero :: "OPER \<Rightarrow> exp \<Rightarrow> exp \<Rightarrow> rule" where
  "rule_times_zero oper s1 s2 =
     (if (oper = opMult \<or> oper = opMults \<or> oper = opBitAnd) \<and> getInt s2 = Some 0
      then Fired (Const_get 0) else NoRule)"

definition rule_and_false :: "OPER \<Rightarrow> exp \<Rightarrow> exp \<Rightarrow> rule" where
  "rule_and_false oper s1 s2 =
     (if oper = opAnd \<and> isFalse s2 then Fired (Terminal opFalse) else NoRule)"

definition rule_times_one :: "OPER \<Rightarrow> exp \<Rightarrow> exp \<Rightarrow> rule" where
  "rule_times_one oper s1 s2 =
     (if (oper = opMult \<or> oper = opMults) \<and> getInt s2 = Some 1 then Fired s1 else NoRule)"

text \<open>\<open>(x * n) / n\<close> becomes \<open>x\<close>.\<close>

definition rule_mult_div_same :: "OPER \<Rightarrow> exp \<Rightarrow> exp \<Rightarrow> rule" where
  "rule_mult_div_same oper s1 s2 =
     (if (oper = opDiv \<or> oper = opDivs) \<and> (getOper s1 = opMult \<or> getOper s1 = opMults) then
        (case getSubExp2 s1 of
           Some n \<Rightarrow>
             whenEq (exp_eq s2 n)
               (case getSubExp1 s1 of Some x \<Rightarrow> Fired x | None \<Rightarrow> Faulted NullPointer)
         | None \<Rightarrow> Faulted NullPointer)
      else NoRule)"

definition rule_div_one :: "OPER \<Rightarrow> exp \<Rightarrow> exp \<Rightarrow> rule" where
  "rule_div_one oper s1 s2 =
     (if (oper = opDiv \<or> oper = opDivs) \<and> getInt s2 = Some 1 then Fired s1 else NoRule)"

definition rule_mod_one :: "OPER \<Rightarrow> exp \<Rightarrow> exp \<Rightarrow> rule" where
  "rule_mod_one oper s1 s2 =
     (if (oper = opMod \<or> oper = opMods) \<and> getInt s2 = Some 1 then Fired (Const_get 0) else NoRule)"

text \<open>\<open>(x * y) % y\<close> becomes 0.\<close>

definition rule_mult_mod_same :: "OPER \<Rightarrow> exp \<Rightarrow> exp \<Rightarrow> rule" where
  "rule_mult_mod_same oper s1 s2 =
     (if (oper = opMod \<or> oper = opMods) \<and> (getOper s1 = opMult \<or> getOper s1 = opMults) then
        (case getSubExp2 s1 of
           Some n \<Rightarrow> whenEq (exp_eq s2 n) (Fired (Const_get 0))
         | None \<Rightarrow> Faulted NullPointer)
      else NoRule)"

definition rule_and_minus_one :: "OPER \<Rightarrow> exp \<Rightarrow> exp \<Rightarrow> rule" where
  "rule_and_minus_one oper s1 s2 =
     (if oper = opBitAnd \<and> getInt s2 = Some (- 1) then Fired s1 else NoRule)"

definition isTrueOrNonzero :: "exp \<Rightarrow> bool" where
  "isTrueOrNonzero e \<longleftrightarrow> (case getInt e of Some k \<Rightarrow> k \<noteq> 0 | None \<Rightarrow> False) \<or> isTrue e"

definition rule_and_true :: "OPER \<Rightarrow> exp \<Rightarrow> exp \<Rightarrow> rule" where
  "rule_and_true oper s1 s2 = (if oper = opAnd \<and> isTrueOrNonzero s2 then Fired s1 else NoRule)"

definition rule_or_true :: "OPER \<Rightarrow> exp \<Rightarrow> exp \<Rightarrow> rule" where
  "rule_or_true oper s1 s2 =
     (if oper = opOr \<and> isTrueOrNonzero s2 then Fired (Terminal opTrue) else NoRule)"

text \<open>\<open>x << k\<close> becomes \<open>x * (1 << k)\<close> and \<open>x >> k\<close> becomes \<open>x / (1 << k)\<close>, for \<open>0 \<le> k < 32\<close>.\<close>

definition rule_shift_left :: "OPER \<Rightarrow> exp \<Rightarrow> exp \<Rightarrow> rule" where
  "rule_shift_left oper s1 s2 =
     (case getInt s2 of
        Some k \<Rightarrow>
          if oper = opShiftL \<and> 0 \<le> sint k \<and> sint k < 32
          then Fired (Binary opMult s1 (setInt (push_bit (unat k) 1) s2)) else NoRule
      | None \<Rightarrow> NoRule)"

definition rule_shift_right :: "OPER \<Rightarrow> exp \<Rightarrow> exp \<Rightarrow> rule" where
  "rule_shift_right oper s1 s2 =
     (case getInt s2 of
        Some k \<Rightarrow>
          if oper = opShiftR \<and> 0 \<le> sint k \<and> sint k < 32
          then Fired (Binary opDiv s1 (setInt (push_bit (unat k) 1) s2)) else NoRule
      | None \<Rightarrow> NoRule)"

text \<open>
  The rules on a comparison with the constant 0 or 1. \<open>liftChildren oper s1\<close> is the node
  whose children are those of \<open>s1\<close>: the source moves them into \<open>this\<close>.
\<close>

definition liftChildren :: "OPER \<Rightarrow> exp \<Rightarrow> rule" where
  "liftChildren oper s1 =
     (case (getSubExp1 s1, getSubExp2 s1) of
        (Some a, Some b) \<Rightarrow> Fired (Binary oper a b)
      | _ \<Rightarrow> Faulted BadCast)"

definition rule_eq_eq_one :: "OPER \<Rightarrow> exp \<Rightarrow> exp \<Rightarrow> rule" where
  "rule_eq_eq_one oper s1 s2 =
     (if oper = opEquals \<and> getInt s2 = Some 1 \<and> getOper s1 = opEquals
      then liftChildren opEquals s1 else NoRule)"

text \<open>\<open>x + -y == 0\<close> becomes \<open>x == y\<close>, for a negative constant \<open>-y\<close>.\<close>

definition rule_plus_neg_eq_zero :: "OPER \<Rightarrow> exp \<Rightarrow> exp \<Rightarrow> rule" where
  "rule_plus_neg_eq_zero oper s1 s2 =
     (if oper = opEquals \<and> getInt s2 = Some 0 \<and> getOper s1 = opPlus then
        (case (getSubExp1 s1, getSubExp2 s1, int2 s1) of
           (Some x, Some c, Some n) \<Rightarrow>
             if sint n < 0 then Fired (Binary opEquals x (setInt (- n) c)) else NoRule
         | _ \<Rightarrow> NoRule)
      else NoRule)"

definition rule_eq_eq_zero :: "OPER \<Rightarrow> exp \<Rightarrow> exp \<Rightarrow> rule" where
  "rule_eq_eq_zero oper s1 s2 =
     (if oper = opEquals \<and> getInt s2 = Some 0 \<and> getOper s1 = opEquals
      then liftChildren opNotEqual s1 else NoRule)"

definition rule_eq_ne_one :: "OPER \<Rightarrow> exp \<Rightarrow> exp \<Rightarrow> rule" where
  "rule_eq_ne_one oper s1 s2 =
     (if oper = opNotEqual \<and> getInt s2 = Some 1 \<and> getOper s1 = opEquals
      then liftChildren opNotEqual s1 else NoRule)"

definition rule_eq_ne_zero :: "OPER \<Rightarrow> exp \<Rightarrow> exp \<Rightarrow> rule" where
  "rule_eq_ne_zero oper s1 s2 =
     (if oper = opNotEqual \<and> getInt s2 = Some 0 \<and> getOper s1 = opEquals
      then Fired s1 else NoRule)"

text \<open>\<open>(0 - x) != 0\<close> becomes \<open>x != 0\<close>.\<close>

definition rule_neg_ne_zero :: "OPER \<Rightarrow> exp \<Rightarrow> exp \<Rightarrow> rule" where
  "rule_neg_ne_zero oper s1 s2 =
     (if oper = opNotEqual \<and> getInt s2 = Some 0 \<and> getOper s1 = opMinus then
        (case getSubExp1 s1 of
           Some z \<Rightarrow>
             if isIntConst z \<and> getInt z = Some 0 then
               (case getSubExp2 s1 of
                  Some x \<Rightarrow> Fired (Binary opNotEqual (clone x) (clone s2))
                | None \<Rightarrow> Faulted NullPointer)
             else NoRule
         | None \<Rightarrow> Faulted NullPointer)
      else NoRule)"

definition rule_gtr_eq_zero :: "OPER \<Rightarrow> exp \<Rightarrow> exp \<Rightarrow> rule" where
  "rule_gtr_eq_zero oper s1 s2 =
     (if oper = opEquals \<and> getInt s2 = Some 0 \<and> getOper s1 = opGtr
      then liftChildren opLessEq s1 else NoRule)"

definition rule_gtruns_eq_zero :: "OPER \<Rightarrow> exp \<Rightarrow> exp \<Rightarrow> rule" where
  "rule_gtruns_eq_zero oper s1 s2 =
     (if oper = opEquals \<and> getInt s2 = Some 0 \<and> getOper s1 = opGtrUns
      then liftChildren opLessEqUns s1 else NoRule)"

text \<open>
  \<open>(x <= y) || (x == y)\<close> becomes \<open>x <= y\<close>. The two children are cast to \<open>Binary\<close>
  with \<open>dynamic_pointer_cast\<close>; a child of another class gives a null pointer.
\<close>

definition rule_le_or_eq :: "OPER \<Rightarrow> exp \<Rightarrow> exp \<Rightarrow> rule" where
  "rule_le_or_eq oper s1 s2 =
     (if oper = opOr \<and> getOper s2 = opEquals
         \<and> (getOper s1 = opGtrEq \<or> getOper s1 = opLessEq \<or> getOper s1 = opGtrEqUns
            \<or> getOper s1 = opLessEqUns) then
        (if isBinaryClass s1 \<and> isBinaryClass s2 then
           (case (getSubExp1 s1, getSubExp2 s1, getSubExp1 s2, getSubExp2 s2) of
              (Some a1, Some a2, Some b1, Some b2) \<Rightarrow>
                whenEq (orElseEq (andAlsoEq (exp_eq a1 b1) (exp_eq a2 b2))
                                 (andAlsoEq (exp_eq a1 b2) (exp_eq a2 b1)))
                  (Fired s1)
            | _ \<Rightarrow> Faulted NullPointer)
         else Faulted NullPointer)
      else NoRule)"

definition rule_bitand_self :: "OPER \<Rightarrow> exp \<Rightarrow> exp \<Rightarrow> rule" where
  "rule_bitand_self oper s1 s2 =
     (if oper = opBitAnd then whenEq (exp_eq s1 s2) (Fired s1) else NoRule)"

text \<open>\<open>a + a*n\<close> becomes \<open>a*(n+1)\<close>, for an integer \<open>n\<close>.\<close>

definition rule_self_plus_mult_const :: "OPER \<Rightarrow> exp \<Rightarrow> exp \<Rightarrow> rule" where
  "rule_self_plus_mult_const oper s1 s2 =
     (if oper = opPlus \<and> getOper s2 = opMult then
        (case getSubExp1 s2 of
           Some a \<Rightarrow>
             whenEq (exp_eq s1 a)
               (case int2 s2 of Some n \<Rightarrow> Fired (setInt2 (n + 1) s2) | None \<Rightarrow> NoRule)
         | None \<Rightarrow> Faulted NullPointer)
      else NoRule)"

text \<open>\<open>a*n*m\<close> becomes \<open>a*(n*m)\<close>.\<close>

definition rule_mult_mult_const :: "OPER \<Rightarrow> exp \<Rightarrow> exp \<Rightarrow> rule" where
  "rule_mult_mult_const oper s1 s2 =
     (if oper = opMult \<and> getOper s1 = opMult then
        (case (getInt s2, int2 s1) of
           (Some m, Some n) \<Rightarrow> Fired (setInt2 (n * m) s1)
         | _ \<Rightarrow> NoRule)
      else NoRule)"

definition rule_lnot_equals :: "OPER \<Rightarrow> exp \<Rightarrow> exp \<Rightarrow> rule" where
  "rule_lnot_equals oper s1 s2 =
     (if oper = opLNot \<and> getOper s1 = opEquals then Fired (setOper opNotEqual s1) else NoRule)"

definition rule_lnot_not_equal :: "OPER \<Rightarrow> exp \<Rightarrow> exp \<Rightarrow> rule" where
  "rule_lnot_not_equal oper s1 s2 =
     (if oper = opLNot \<and> getOper s1 = opNotEqual then Fired (setOper opEquals s1) else NoRule)"

text \<open>
  \<open>exp + n\<close> where \<open>exp\<close> is a subscripted expression whose definition gives it the type
  of a pointer to a compound: \<open>convertFromOffsetToCompound\<close> builds
  \<open>a[ m[exp].member... ]\<close> with \<open>accessMember\<close>, which appends one member access or array
  index for each step through the type. The definition is asked for the type whatever the
  operator of the node is; the wildcard definition is not a pointer to a statement. The
  result of \<open>convertFromOffsetToCompound\<close> is assigned to \<open>res\<close> before it is tested:
  when it is the null pointer, \<open>res\<close> stays null, none of the rules that follow applies
  to a sum whose left child is a subscript, and \<open>polySimplify\<close> returns the null pointer,
  which its caller dereferences or stores into the tree. The model ends the run there with
  the fault \<open>NullPointer\<close>.
\<close>

fun accessMember :: "exp \<Rightarrow> member_step list \<Rightarrow> exp" where
  "accessMember parent [] = parent"
| "accessMember parent (Member nam # steps) =
     accessMember (Binary opMemberAccess parent (Const (StrV nam) 0)) steps"
| "accessMember parent (Index k # steps) =
     accessMember (Binary opArrayIndex parent (Const_get k)) steps"

definition rule_compound_offset :: "env \<Rightarrow> OPER \<Rightarrow> exp \<Rightarrow> exp \<Rightarrow> rule" where
  "rule_compound_offset \<Gamma> oper s1 s2 =
     (if isSubscript s1 then
        (case s1 of
           RefExp x d \<Rightarrow>
             (case d of
                DefNull \<Rightarrow> NoRule
              | DefWild \<Rightarrow> Faulted WildPointer
              | Def st \<Rightarrow>
                  (case getInt s2 of
                     Some n \<Rightarrow>
                       if oper = opPlus then
                         (case layout \<Gamma> st x n of
                            NoCompound \<Rightarrow> NoRule
                          | NoMember \<Rightarrow> Faulted NullPointer
                          | Members steps \<Rightarrow>
                              Fired (Unary opAddrOf (accessMember (memOf s1) steps))
                          | LayoutFault f \<Rightarrow> Faulted f)
                       else NoRule
                   | None \<Rightarrow> NoRule))
         | _ \<Rightarrow> Faulted BadCast)
      else NoRule)"

text \<open>\<open>0.0 -f x\<close> becomes \<open>-f x\<close>; both zeros compare equal to \<open>0.0\<close>.\<close>

definition rule_fminus_zero :: "OPER \<Rightarrow> exp \<Rightarrow> exp \<Rightarrow> rule" where
  "rule_fminus_zero oper s1 s2 =
     (case s1 of
        Const (FltV d) c \<Rightarrow>
          if oper = opFMinus \<and> flt_eq d 0 then Fired (Unary opFNeg s2) else NoRule
      | _ \<Rightarrow> NoRule)"

text \<open>\<open>(x * n) + n\<close> becomes \<open>(x + 1) * n\<close>, and the same with \<open>-\<close>.\<close>

definition rule_mult_plus_same_const :: "OPER \<Rightarrow> exp \<Rightarrow> exp \<Rightarrow> rule" where
  "rule_mult_plus_same_const oper s1 s2 =
     (if (oper = opPlus \<or> oper = opMinus) \<and> (getOper s1 = opMults \<or> getOper s1 = opMult) then
        (case (getInt s2, int2 s1, getSubExp1 s1) of
           (Some n1, Some n2, Some x) \<Rightarrow>
             if n1 = n2
             then Fired (Binary (getOper s1) (Binary oper (clone x) (Const_get 1)) (Const_get n1))
             else NoRule
         | _ \<Rightarrow> NoRule)
      else NoRule)"

text \<open>\<open>(a + (x * n)) + n\<close> becomes \<open>a + ((x + 1) * n)\<close>, and the same with \<open>-\<close>.\<close>

definition rule_plus_mult_plus_same_const :: "OPER \<Rightarrow> exp \<Rightarrow> exp \<Rightarrow> rule" where
  "rule_plus_mult_plus_same_const oper s1 s2 =
     (if (oper = opPlus \<or> oper = opMinus) \<and> getOper s1 = opPlus then
        (case (getInt s2, getSubExp1 s1, getSubExp2 s1) of
           (Some n1, Some a, Some m) \<Rightarrow>
             if getOper m = opMults \<or> getOper m = opMult then
               (case (int2 m, getSubExp1 m) of
                  (Some n2, Some x) \<Rightarrow>
                    if n1 = n2
                    then Fired (Binary opPlus a
                                  (Binary (getOper m) (Binary oper (clone x) (Const_get 1))
                                     (Const_get n1)))
                    else NoRule
                | _ \<Rightarrow> NoRule)
             else NoRule
         | _ \<Rightarrow> NoRule)
      else NoRule)"

text \<open>
  The shape \<open>((x * a) + (y * b)) op c\<close> with integers \<open>a\<close>, \<open>b\<close>, \<open>c\<close> that the two
  rules on \<open>/\<close> and \<open>%\<close> look for.
\<close>

definition sumOfProducts :: "exp \<Rightarrow> exp \<Rightarrow> (exp \<times> 32 word \<times> exp \<times> 32 word \<times> 32 word) option" where
  "sumOfProducts s1 s2 =
     (if getOper s1 = opPlus then
        (case (getInt s2, getSubExp1 s1, getSubExp2 s1) of
           (Some c, Some l, Some r) \<Rightarrow>
             if getOper l = opMult \<and> getOper r = opMult then
               (case (getSubExp1 l, int2 l, getSubExp1 r, int2 r) of
                  (Some x, Some a, Some y, Some b) \<Rightarrow> Some (x, a, y, b, c)
                | _ \<Rightarrow> None)
             else None
         | _ \<Rightarrow> None)
      else None)"

text \<open>\<open>((x * a) + (y * b)) / c\<close> becomes \<open>(x * a/c) + (y * b/c)\<close> when \<open>c\<close> divides both.\<close>

definition rule_div_sum_of_products :: "OPER \<Rightarrow> exp \<Rightarrow> exp \<Rightarrow> rule" where
  "rule_div_sum_of_products oper s1 s2 =
     (if oper = opDiv then
        (case sumOfProducts s1 s2 of
           Some (x, a, y, b, c) \<Rightarrow>
             (case smod32 a c of
                Inl f \<Rightarrow> Faulted f
              | Inr ra \<Rightarrow>
                  if ra \<noteq> 0 then NoRule
                  else (case smod32 b c of
                          Inl f \<Rightarrow> Faulted f
                        | Inr rb \<Rightarrow>
                            if rb \<noteq> 0 then NoRule
                            else (case (sdiv32 a c, sdiv32 b c) of
                                    (Inr qa, Inr qb) \<Rightarrow>
                                      Fired (Binary opPlus (Binary opMult x (Const_get qa))
                                                            (Binary opMult y (Const_get qb)))
                                  | (Inl f, _) \<Rightarrow> Faulted f
                                  | (_, Inl f) \<Rightarrow> Faulted f)))
         | None \<Rightarrow> NoRule)
      else NoRule)"

text \<open>
  \<open>((x * a) + (y * b)) % c\<close> becomes 0 when \<open>c\<close> divides both, \<open>(y * b) % c\<close> when it
  divides \<open>a\<close>, and \<open>(x * a) % c\<close> when it divides \<open>b\<close>.
\<close>

definition rule_mod_sum_of_products :: "OPER \<Rightarrow> exp \<Rightarrow> exp \<Rightarrow> rule" where
  "rule_mod_sum_of_products oper s1 s2 =
     (if oper = opMod then
        (case sumOfProducts s1 s2 of
           Some (x, a, y, b, c) \<Rightarrow>
             (case smod32 a c of
                Inl f \<Rightarrow> Faulted f
              | Inr ra \<Rightarrow>
                  (case smod32 b c of
                     Inl f \<Rightarrow> Faulted f
                   | Inr rb \<Rightarrow>
                       if ra = 0 \<and> rb = 0 then Fired (Const_get 0)
                       else if ra = 0 then
                         (case getSubExp2 s1 of
                            Some r \<Rightarrow> Fired (Binary opMod (clone r) (Const_get c))
                          | None \<Rightarrow> Faulted NullPointer)
                       else if rb = 0 then
                         (case getSubExp1 s1 of
                            Some l \<Rightarrow> Fired (Binary opMod (clone l) (Const_get c))
                          | None \<Rightarrow> Faulted NullPointer)
                       else NoRule))
         | None \<Rightarrow> NoRule)
      else NoRule)"

text \<open>\<open>(0 - (0 <u exp1)) & exp2\<close> becomes \<open>exp2\<close>.\<close>

definition rule_mask_of_nonzero :: "OPER \<Rightarrow> exp \<Rightarrow> exp \<Rightarrow> rule" where
  "rule_mask_of_nonzero oper s1 s2 =
     (if oper = opBitAnd \<and> getOper s1 = opMinus then
        (case (getSubExp1 s1, getSubExp2 s1) of
           (Some leftOfMinus, Some rightOfMinus) \<Rightarrow>
             if isIntConst leftOfMinus \<and> getInt leftOfMinus = Some 0
                \<and> getOper rightOfMinus = opLessUns then
               (case getSubExp1 rightOfMinus of
                  Some leftOfLess \<Rightarrow>
                    if isIntConst leftOfLess \<and> getInt leftOfLess = Some 0 then Fired s2
                    else NoRule
                | None \<Rightarrow> Faulted NullPointer)
             else NoRule
         | _ \<Rightarrow> Faulted NullPointer)
      else NoRule)"

text \<open>\<open>opSize(n, loc)\<close> becomes \<open>loc\<close>.\<close>

definition rule_size_of_location :: "OPER \<Rightarrow> exp \<Rightarrow> exp \<Rightarrow> rule" where
  "rule_size_of_location oper s1 s2 =
     (if oper = opSize \<and> isLocation s2 then Fired s2 else NoRule)"

text \<open>The rules in the order of the source, cut where the source does something else.\<close>

definition binaryRulesA :: "env \<Rightarrow> OPER \<Rightarrow> exp \<Rightarrow> exp \<Rightarrow> rule" where
  "binaryRulesA \<Gamma> oper s1 s2 =
     firstRule [rule_fold \<Gamma> oper s1 s2, rule_xor_minus_self oper s1 s2,
                rule_or_and_self oper s1 s2, rule_equals_self oper s1 s2]"

definition binaryRulesB :: "OPER \<Rightarrow> exp \<Rightarrow> exp \<Rightarrow> rule" where
  "binaryRulesB oper s1 s2 =
     firstRule [rule_plus_plus_const oper s1 s2, rule_minus_plus_const oper s1 s2,
                rule_mult_minus_self oper s1 s2, rule_self_plus_mult oper s1 s2]"

definition binaryRulesC :: "OPER \<Rightarrow> exp \<Rightarrow> exp \<Rightarrow> rule" where
  "binaryRulesC oper s1 s2 =
     firstRule [rule_zero_right oper s1 s2, rule_or_false oper s1 s2,
                rule_times_zero oper s1 s2, rule_and_false oper s1 s2,
                rule_times_one oper s1 s2, rule_mult_div_same oper s1 s2,
                rule_div_one oper s1 s2, rule_mod_one oper s1 s2,
                rule_mult_mod_same oper s1 s2, rule_and_minus_one oper s1 s2,
                rule_and_true oper s1 s2, rule_or_true oper s1 s2,
                rule_shift_left oper s1 s2, rule_shift_right oper s1 s2,
                rule_eq_eq_one oper s1 s2, rule_plus_neg_eq_zero oper s1 s2,
                rule_eq_eq_zero oper s1 s2, rule_eq_ne_one oper s1 s2,
                rule_eq_ne_zero oper s1 s2, rule_neg_ne_zero oper s1 s2,
                rule_gtr_eq_zero oper s1 s2, rule_gtruns_eq_zero oper s1 s2,
                rule_le_or_eq oper s1 s2]"

definition binaryRulesD :: "env \<Rightarrow> OPER \<Rightarrow> exp \<Rightarrow> exp \<Rightarrow> rule" where
  "binaryRulesD \<Gamma> oper s1 s2 =
     firstRule [rule_bitand_self oper s1 s2, rule_self_plus_mult_const oper s1 s2,
                rule_mult_mult_const oper s1 s2, rule_lnot_equals oper s1 s2,
                rule_lnot_not_equal oper s1 s2, rule_compound_offset \<Gamma> oper s1 s2,
                rule_fminus_zero oper s1 s2, rule_mult_plus_same_const oper s1 s2,
                rule_plus_mult_plus_same_const oper s1 s2, rule_div_sum_of_products oper s1 s2,
                rule_mod_sum_of_products oper s1 s2, rule_mask_of_nonzero oper s1 s2,
                rule_size_of_location oper s1 s2]"

text \<open>
  \<open>Binary::polySimplify\<close> after the two children are simplified, up to the point where it
  simplifies the children of \<open>||\<close> and \<open>&&\<close> again: a return with \<open>bMod\<close> set, a fault,
  or the node (commuted, its negative constant flipped) to go on with.
\<close>

datatype binary_step = BReturn exp | BFault fault | BGoOn OPER exp exp

definition binaryStep :: "env \<Rightarrow> OPER \<Rightarrow> exp \<Rightarrow> exp \<Rightarrow> binary_step" where
  "binaryStep \<Gamma> oper s1 s2 =
     (case binaryRulesA \<Gamma> oper s1 s2 of
        Fired r \<Rightarrow> BReturn r
      | Faulted f \<Rightarrow> BFault f
      | NoRule \<Rightarrow>
          (case commutations oper (s1, s2) of (t1, t2) \<Rightarrow>
             (case binaryRulesB oper t1 t2 of
                Fired r \<Rightarrow> BReturn r
              | Faulted f \<Rightarrow> BFault f
              | NoRule \<Rightarrow>
                  (case flip_negative_const oper t2 of (oper', t2') \<Rightarrow>
                     (case binaryRulesC oper' t1 t2' of
                        Fired r \<Rightarrow> BReturn r
                      | Faulted f \<Rightarrow> BFault f
                      | NoRule \<Rightarrow> BGoOn oper' t1 t2')))))"

subsection \<open>The rules of \<open>Ternary::polySimplify\<close>\<close>

definition rule_tern_one_zero :: "OPER \<Rightarrow> exp \<Rightarrow> exp \<Rightarrow> exp \<Rightarrow> rule" where
  "rule_tern_one_zero oper s1 s2 s3 =
     (if oper = opTern \<and> getInt s2 = Some 1 \<and> getInt s3 = Some 0 then Fired s1 else NoRule)"

definition rule_tern_true :: "OPER \<Rightarrow> exp \<Rightarrow> exp \<Rightarrow> exp \<Rightarrow> rule" where
  "rule_tern_true oper s1 s2 s3 =
     (if oper = opTern \<and> getInt s1 = Some 1 then Fired s2 else NoRule)"

definition rule_tern_false :: "OPER \<Rightarrow> exp \<Rightarrow> exp \<Rightarrow> exp \<Rightarrow> rule" where
  "rule_tern_false oper s1 s2 s3 =
     (if oper = opTern \<and> getInt s1 = Some 0 then Fired s3 else NoRule)"

definition rule_extend_const :: "OPER \<Rightarrow> exp \<Rightarrow> exp \<Rightarrow> exp \<Rightarrow> rule" where
  "rule_extend_const oper s1 s2 s3 =
     (if (oper = opSgnEx \<or> oper = opZfill) \<and> getOper s3 = opIntConst then Fired s3 else NoRule)"

definition rule_fsize_itof :: "OPER \<Rightarrow> exp \<Rightarrow> exp \<Rightarrow> exp \<Rightarrow> rule" where
  "rule_fsize_itof oper s1 s2 s3 =
     (if oper = opFsize \<and> getOper s3 = opItof then
        (case (getSubExp1 s3, getSubExp2 s3) of
           (Some a, Some b) \<Rightarrow> whenEq (andAlsoEq (exp_eq s1 b) (exp_eq s2 a)) (Fired s3)
         | _ \<Rightarrow> Faulted NullPointer)
      else NoRule)"

definition rule_fsize_const :: "OPER \<Rightarrow> exp \<Rightarrow> exp \<Rightarrow> exp \<Rightarrow> rule" where
  "rule_fsize_const oper s1 s2 s3 =
     (if oper = opFsize \<and> getOper s3 = opFltConst then Fired s3 else NoRule)"

definition rule_itof_const :: "env \<Rightarrow> OPER \<Rightarrow> exp \<Rightarrow> exp \<Rightarrow> exp \<Rightarrow> rule" where
  "rule_itof_const \<Gamma> oper s1 s2 s3 =
     (case getInt s3 of
        Some n \<Rightarrow>
          if oper = opItof \<and> getInt s2 = Some 32 then Fired (Const (FltV (floatBits \<Gamma> n)) 0)
          else NoRule
      | None \<Rightarrow> NoRule)"

text \<open>
  \<open>fsize(..., m[addr])\<close> with a constant address: the third child is cast to
  \<open>Location\<close> with \<open>dynamic_pointer_cast\<close> and the program is asked for the double at the
  address. When it has one, the child is replaced and the node returned with \<open>bMod\<close> set.
\<close>

definition rule_fsize_memof :: "env \<Rightarrow> OPER \<Rightarrow> exp \<Rightarrow> exp \<Rightarrow> exp \<Rightarrow> rule" where
  "rule_fsize_memof \<Gamma> oper s1 s2 s3 =
     (if oper = opFsize \<and> getOper s3 = opMemOf then
        (case int1 s3 of
           Some u \<Rightarrow>
             (case s3 of
                Location x a \<Rightarrow>
                  (case floatConstant \<Gamma> u (getInt s1) of
                     Some d \<Rightarrow> Fired (Ternary oper s1 s2 (Const (FltV d) 0))
                   | None \<Rightarrow> NoRule)
              | _ \<Rightarrow> Faulted NullPointer)
         | None \<Rightarrow> NoRule)
      else NoRule)"

text \<open>
  \<open>truncu\<close> and \<open>truncs\<close> of a constant from 32 bits to 16 or 8: both mask the value.
  The first two children are cast to \<open>Const\<close> without a test.
\<close>

definition rule_trunc_const :: "OPER \<Rightarrow> OPER \<Rightarrow> exp \<Rightarrow> exp \<Rightarrow> exp \<Rightarrow> rule" where
  "rule_trunc_const which oper s1 s2 s3 =
     (if oper = which \<and> isIntConst s3 then
        (case (getInt s1, getInt s2, getInt s3) of
           (Some from, Some to, Some val) \<Rightarrow>
             if from = 32 \<and> to = 16 then Fired (Const_get (val AND 0xffff))
             else if from = 32 \<and> to = 8 then Fired (Const_get (val AND 0xff))
             else NoRule
         | _ \<Rightarrow> Faulted BadCast)
      else NoRule)"

definition ternaryRules :: "env \<Rightarrow> OPER \<Rightarrow> exp \<Rightarrow> exp \<Rightarrow> exp \<Rightarrow> rule" where
  "ternaryRules \<Gamma> oper s1 s2 s3 =
     firstRule [rule_tern_one_zero oper s1 s2 s3, rule_tern_true oper s1 s2 s3,
                rule_tern_false oper s1 s2 s3, rule_extend_const oper s1 s2 s3,
                rule_fsize_itof oper s1 s2 s3, rule_fsize_const oper s1 s2 s3,
                rule_itof_const \<Gamma> oper s1 s2 s3, rule_fsize_memof \<Gamma> oper s1 s2 s3,
                rule_trunc_const opTruncu oper s1 s2 s3, rule_trunc_const opTruncs oper s1 s2 s3]"

subsection \<open>The rules of \<open>RefExp::polySimplify\<close>\<close>

text \<open>
  \<open>%DF{-}\<close> becomes 0, and \<open>r0{def}\<close>, where \<open>def\<close> is an assignment to \<open>r24\<close>,
  becomes the 16 bit integer view of \<open>r24{def}\<close>. The second rule calls
  \<open>def->isAssign()\<close> on every definition of \<open>r0\<close> that is not null, the wildcard
  definition included, which is not a pointer to a statement.
\<close>

definition isAssignTo :: "stmt \<Rightarrow> 32 word \<Rightarrow> bool" where
  "isAssignTo st n \<longleftrightarrow> stmt_kind st = STMT_ASSIGN \<and> stmt_left_reg st = Some n"

definition refRules :: "exp \<Rightarrow> defn \<Rightarrow> rule" where
  "refRules s1 d =
     (if getOper s1 = opDF \<and> d = DefNull then Fired (Const_get 0)
      else if isRegN s1 0 then
        (case d of
           DefNull \<Rightarrow> NoRule
         | DefWild \<Rightarrow> Faulted WildPointer
         | Def st \<Rightarrow>
             if isAssignTo st 24 then Fired (TypedExp (IntegerType 16) (RefExp (regOf 24) d))
             else NoRule)
      else NoRule)"

subsection \<open>\<open>polySimplify\<close> and \<open>simplify\<close>\<close>

text \<open>
  \<open>polySimplify \<Gamma> n e bMod\<close> is the virtual \<open>e->polySimplify(bMod)\<close> and
  \<open>simplify \<Gamma> n e\<close> is \<open>e->simplify()\<close>, the loop that calls \<open>polySimplify\<close> with a
  cleared flag until the flag stays clear. \<open>n\<close> bounds the depth of the calls; each call
  passes \<open>n - 1\<close> on. \<open>TypedExp::polySimplify\<close> calls \<open>simplify\<close> on its child and does
  not touch \<open>bMod\<close>; \<open>RefExp::polySimplify\<close> returns at once when its child has left the
  flag set.
\<close>

fun polySimplify :: "env \<Rightarrow> nat \<Rightarrow> exp \<Rightarrow> bool \<Rightarrow> (exp \<times> bool) outcome"
  and simplify :: "env \<Rightarrow> nat \<Rightarrow> exp \<Rightarrow> exp outcome" where
  "polySimplify \<Gamma> 0 e bMod = OutOfFuel"
| "polySimplify \<Gamma> (Suc n) (Const v c) bMod =
     Ok (Const v c, if base_clears \<Gamma> then False else bMod)"
| "polySimplify \<Gamma> (Suc n) (Terminal oper) bMod =
     Ok (Terminal oper, if base_clears \<Gamma> then False else bMod)"
| "polySimplify \<Gamma> (Suc n) (TypeVal t) bMod =
     Ok (TypeVal t, if base_clears \<Gamma> then False else bMod)"
| "polySimplify \<Gamma> (Suc n) (Unary oper a) bMod =
     (case polySimplify \<Gamma> n a bMod of
        OutOfFuel \<Rightarrow> OutOfFuel
      | Fault f \<Rightarrow> Fault f
      | Ok (s1, b1) \<Rightarrow>
          (case unaryStep oper s1 of
             UReturn r \<Rightarrow> Ok (r, True)
           | UFault f \<Rightarrow> Fault f
           | UKeep \<Rightarrow> Ok (Unary oper s1, b1)
           | UAgain \<Rightarrow>
               (case polySimplify \<Gamma> n s1 b1 of
                  OutOfFuel \<Rightarrow> OutOfFuel
                | Fault f \<Rightarrow> Fault f
                | Ok (s1', b2) \<Rightarrow> Ok (Unary oper s1', b2))))"
| "polySimplify \<Gamma> (Suc n) (Location oper a) bMod =
     (case polySimplify \<Gamma> n a bMod of
        OutOfFuel \<Rightarrow> OutOfFuel
      | Fault f \<Rightarrow> Fault f
      | Ok (s1, b1) \<Rightarrow>
          (case (case unaryStep oper s1 of
                   UReturn r \<Rightarrow> Ok (r, True)
                 | UFault f \<Rightarrow> Fault f
                 | UKeep \<Rightarrow> Ok (Location oper s1, b1)
                 | UAgain \<Rightarrow>
                     (case polySimplify \<Gamma> n s1 b1 of
                        OutOfFuel \<Rightarrow> OutOfFuel
                      | Fault f \<Rightarrow> Fault f
                      | Ok (s1', b2) \<Rightarrow> Ok (Location oper s1', b2))) of
             OutOfFuel \<Rightarrow> OutOfFuel
           | Fault f \<Rightarrow> Fault f
           | Ok (res, b3) \<Rightarrow>
               (case locationRule res of
                  Fired r \<Rightarrow> Ok (r, True)
                | Faulted f \<Rightarrow> Fault f
                | NoRule \<Rightarrow> Ok (res, b3))))"
| "polySimplify \<Gamma> (Suc n) (Binary oper a b) bMod =
     (case polySimplify \<Gamma> n a bMod of
        OutOfFuel \<Rightarrow> OutOfFuel
      | Fault f \<Rightarrow> Fault f
      | Ok (s1, b1) \<Rightarrow>
          (case polySimplify \<Gamma> n b b1 of
             OutOfFuel \<Rightarrow> OutOfFuel
           | Fault f \<Rightarrow> Fault f
           | Ok (s2, b2) \<Rightarrow>
               (case binaryStep \<Gamma> oper s1 s2 of
                  BReturn r \<Rightarrow> Ok (r, True)
                | BFault f \<Rightarrow> Fault f
                | BGoOn oper' t1 t2 \<Rightarrow>
                    if oper' = opOr \<or> oper' = opAnd then
                      (case polySimplify \<Gamma> n t1 b2 of
                         OutOfFuel \<Rightarrow> OutOfFuel
                       | Fault f \<Rightarrow> Fault f
                       | Ok (u1, b3) \<Rightarrow>
                           (case polySimplify \<Gamma> n t2 b3 of
                              OutOfFuel \<Rightarrow> OutOfFuel
                            | Fault f \<Rightarrow> Fault f
                            | Ok (u2, b4) \<Rightarrow> Ok (Binary oper' u1 u2, b4)))
                    else
                      (case binaryRulesD \<Gamma> oper' t1 t2 of
                         Fired r \<Rightarrow> Ok (r, True)
                       | Faulted f \<Rightarrow> Fault f
                       | NoRule \<Rightarrow> Ok (Binary oper' t1 t2, b2)))))"
| "polySimplify \<Gamma> (Suc n) (Ternary oper a b c) bMod =
     (case polySimplify \<Gamma> n a bMod of
        OutOfFuel \<Rightarrow> OutOfFuel
      | Fault f \<Rightarrow> Fault f
      | Ok (s1, b1) \<Rightarrow>
          (case polySimplify \<Gamma> n b b1 of
             OutOfFuel \<Rightarrow> OutOfFuel
           | Fault f \<Rightarrow> Fault f
           | Ok (s2, b2) \<Rightarrow>
               (case polySimplify \<Gamma> n c b2 of
                  OutOfFuel \<Rightarrow> OutOfFuel
                | Fault f \<Rightarrow> Fault f
                | Ok (s3, b3) \<Rightarrow>
                    (case ternaryRules \<Gamma> oper s1 s2 s3 of
                       Fired r \<Rightarrow> Ok (r, True)
                     | Faulted f \<Rightarrow> Fault f
                     | NoRule \<Rightarrow> Ok (Ternary oper s1 s2 s3, b3)))))"
| "polySimplify \<Gamma> (Suc n) (TypedExp t a) bMod =
     (if getOper a = opRegOf then Ok (a, True)
      else (case simplify \<Gamma> n a of
              OutOfFuel \<Rightarrow> OutOfFuel
            | Fault f \<Rightarrow> Fault f
            | Ok s1 \<Rightarrow> Ok (TypedExp t s1, bMod)))"
| "polySimplify \<Gamma> (Suc n) (RefExp a d) bMod =
     (case polySimplify \<Gamma> n a bMod of
        OutOfFuel \<Rightarrow> OutOfFuel
      | Fault f \<Rightarrow> Fault f
      | Ok (s1, b1) \<Rightarrow>
          if b1 then Ok (RefExp s1 d, b1)
          else (case refRules s1 d of
                  Fired r \<Rightarrow> Ok (r, True)
                | Faulted f \<Rightarrow> Fault f
                | NoRule \<Rightarrow> Ok (RefExp s1 d, b1)))"
| "simplify \<Gamma> 0 e = OutOfFuel"
| "simplify \<Gamma> (Suc n) e =
     (case polySimplify \<Gamma> n e False of
        OutOfFuel \<Rightarrow> OutOfFuel
      | Fault f \<Rightarrow> Fault f
      | Ok (res, bMod) \<Rightarrow> if bMod then simplify \<Gamma> n res else Ok res)"

subsection \<open>The value of a closed integer expression\<close>

text \<open>
  The evaluation that the specification measures the simplifier against: 32 bit two's
  complement arithmetic on the integer constants; \<open>/\<close> and \<open>%\<close> unsigned for \<open>opDiv\<close>
  and \<open>opMod\<close>, signed and truncating for \<open>opDivs\<close> and \<open>opMods\<close>; a shift by 32 or more
  gives zero, for the left, the right and the arithmetic right shift alike; the arithmetic
  right shift copies the sign bit into the high bits; a comparison gives 1 or 0. Division by
  zero has no value.
\<close>

definition spec_shift_amount :: "32 word \<Rightarrow> nat option" where
  "spec_shift_amount k = (if unat k \<ge> 32 then None else Some (unat k))"

definition spec_binary :: "OPER \<Rightarrow> 32 word \<Rightarrow> 32 word \<Rightarrow> 32 word option" where
  "spec_binary oper x y =
     (if oper = opPlus then Some (x + y)
      else if oper = opMinus then Some (x - y)
      else if oper = opMult \<or> oper = opMults then Some (x * y)
      else if oper = opDiv then (if y = 0 then None else Some (x div y))
      else if oper = opMod then (if y = 0 then None else Some (x mod y))
      else if oper = opDivs then
        (if y = 0 then None else Some (word_of_int (sint x sdiv sint y)))
      else if oper = opMods then
        (if y = 0 then None else Some (word_of_int (sint x smod sint y)))
      else if oper = opShiftL then
        Some (case spec_shift_amount y of Some n \<Rightarrow> push_bit n x | None \<Rightarrow> 0)
      else if oper = opShiftR then
        Some (case spec_shift_amount y of Some n \<Rightarrow> drop_bit n x | None \<Rightarrow> 0)
      else if oper = opShiftRA then
        Some (case spec_shift_amount y of Some n \<Rightarrow> signed_drop_bit n x | None \<Rightarrow> 0)
      else if oper = opBitOr then Some (x OR y)
      else if oper = opBitAnd then Some (x AND y)
      else if oper = opBitXor then Some (x XOR y)
      else if oper = opEquals then Some (boolInt (x = y))
      else if oper = opNotEqual then Some (boolInt (x \<noteq> y))
      else if oper = opLess then Some (boolInt (sint x < sint y))
      else if oper = opGtr then Some (boolInt (sint x > sint y))
      else if oper = opLessEq then Some (boolInt (sint x \<le> sint y))
      else if oper = opGtrEq then Some (boolInt (sint x \<ge> sint y))
      else if oper = opLessUns then Some (boolInt (x < y))
      else if oper = opGtrUns then Some (boolInt (x > y))
      else if oper = opLessEqUns then Some (boolInt (x \<le> y))
      else if oper = opGtrEqUns then Some (boolInt (x \<ge> y))
      else None)"

fun spec_eval :: "exp \<Rightarrow> 32 word option" where
  "spec_eval (Const (IntV k) c) = Some k"
| "spec_eval (Binary oper a b) =
     (case (spec_eval a, spec_eval b) of
        (Some x, Some y) \<Rightarrow> spec_binary oper x y
      | _ \<Rightarrow> None)"
| "spec_eval e = None"
section \<open>Properties of search and replace\<close>

lemma clone_id [simp]: "clone e = e"
  by (induction e) simp_all

declare foundSlots.simps [simp del]

lemma okPaths_self: "pos \<in> okPaths e pos"
  unfolding okPaths_def by (rule CollectI, rule exI [of _ "[]"]) simp

lemma okChildPaths_sub: "okChildPaths e pos \<subseteq> okPaths e pos"
  unfolding okPaths_def okChildPaths_def by blast

lemma okPaths_child:
  "oper \<noteq> opInitValueOf \<Longrightarrow> okPaths a (pos @ [0]) \<subseteq> okChildPaths (Unary oper a) pos"
  "oper \<noteq> opInitValueOf \<Longrightarrow> okPaths a (pos @ [0]) \<subseteq> okChildPaths (Location oper a) pos"
  "okPaths a (pos @ [0]) \<subseteq> okChildPaths (TypedExp t a) pos"
  "okPaths a (pos @ [0]) \<subseteq> okChildPaths (RefExp a d) pos"
  "okPaths a (pos @ [0]) \<subseteq> okChildPaths (Binary oper a b) pos"
  "okPaths b (pos @ [1]) \<subseteq> okChildPaths (Binary oper a b) pos"
  "okPaths a (pos @ [0]) \<subseteq> okChildPaths (Ternary oper a b c) pos"
  "okPaths b (pos @ [1]) \<subseteq> okChildPaths (Ternary oper a b c) pos"
  "okPaths c (pos @ [2]) \<subseteq> okChildPaths (Ternary oper a b c) pos"
  unfolding okPaths_def okChildPaths_def by force+

lemma foundSlots_paths:
  "set (foundSlots s e pos li once) \<subseteq> set li \<union> okPaths e pos"
  "set (foundChildSlots s e pos li once) \<subseteq> set li \<union> okChildPaths e pos"
proof (induction s e pos li once and s e pos li once rule: foundSlots_foundChildSlots.induct)
  case (1 search pSrc pos li once)
  let ?c = "eq_holds search pSrc"
  let ?li1 = "if ?c then li @ [pos] else li"
  have li1: "set ?li1 \<subseteq> set li \<union> okPaths pSrc pos"
    using okPaths_self [of pos pSrc] by auto
  have IH: "\<not> (?c \<and> once) \<Longrightarrow> \<not> ?c \<or> getOper pSrc \<noteq> opSubscript \<Longrightarrow>
      set (foundChildSlots search pSrc pos ?li1 once) \<subseteq> set li \<union> okPaths pSrc pos"
    using "1.IH" [OF refl refl] li1 okChildPaths_sub [of pSrc pos] by blast
  show ?case
  proof (cases ?c)
    case True
    with IH li1 show ?thesis
      unfolding foundSlots.simps [of search pSrc pos li once] Let_def by auto
  next
    case False
    with IH li1 show ?thesis
      unfolding foundSlots.simps [of search pSrc pos li once] Let_def by auto
  qed
next
  case (2 search oper a pos li once)
  then show ?case using okPaths_child(1) [of oper a pos] by (cases "oper = opInitValueOf") auto
next
  case (3 search oper a pos li once)
  then show ?case using okPaths_child(2) [of oper a pos] by (cases "oper = opInitValueOf") auto
next
  case (4 search t a pos li once)
  then show ?case using okPaths_child(3) [of a pos t] by auto
next
  case (5 search a d pos li once)
  then show ?case using okPaths_child(4) [of a pos d] by auto
next
  case (6 search oper a b pos li once)
  let ?l1 = "foundSlots search a (pos @ [0]) li once"
  have A: "set ?l1 \<subseteq> set li \<union> okChildPaths (Binary oper a b) pos"
    using "6.IH"(1) okPaths_child(5) [of a pos oper b] by blast
  have B: "\<not> (once \<and> ?l1 \<noteq> []) \<Longrightarrow>
      set (foundSlots search b (pos @ [1]) ?l1 once) \<subseteq> set li \<union> okChildPaths (Binary oper a b) pos"
    using "6.IH"(2) [OF refl] A okPaths_child(6) [of b pos oper a] by blast
  show ?case using A B by (cases once) (simp_all add: Let_def)
next
  case (7 search oper a b c pos li once)
  let ?l1 = "foundSlots search a (pos @ [0]) li once"
  let ?l2 = "foundSlots search b (pos @ [1]) ?l1 once"
  let ?T = "okChildPaths (Ternary oper a b c) pos"
  have A: "set ?l1 \<subseteq> set li \<union> ?T"
    using "7.IH"(1) okPaths_child(7) [of a pos oper b c] by blast
  have B: "\<not> (once \<and> ?l1 \<noteq> []) \<Longrightarrow> set ?l2 \<subseteq> set li \<union> ?T"
    using "7.IH"(2) [OF refl] A okPaths_child(8) [of b pos oper a c] by blast
  have C: "\<not> (once \<and> ?l1 \<noteq> []) \<Longrightarrow> \<not> (once \<and> ?l2 \<noteq> []) \<Longrightarrow>
      set (foundSlots search c (pos @ [2]) ?l2 once) \<subseteq> set li \<union> ?T"
    using "7.IH"(3) [OF refl _ refl] B okPaths_child(9) [of c pos oper a b] by blast
  show ?case using A B C by (cases once) (simp_all add: Let_def)
qed simp_all

lemma map_append_Nil [simp]: "map ((@) []) xs = xs"
  by (induction xs) simp_all

lemma foundSlots_from_children:
  assumes "\<And>pos li. foundChildSlots s e pos li False
             = li @ map ((@) pos) (foundChildSlots s e [] [] False)"
  shows "foundSlots s e pos li False = li @ map ((@) pos) (foundSlots s e [] [] False)"
  using assms [of pos "li @ [pos]"] assms [of pos li] assms [of "[]" "[[]]"]
  by (simp add: foundSlots.simps [of s e] Let_def)

lemma foundChildSlots_shift:
  "foundChildSlots s e pos li False = li @ map ((@) pos) (foundChildSlots s e [] [] False)"
proof (induction e arbitrary: pos li)
  case (Unary oper a)
  note A = foundSlots_from_children [of s a, OF Unary]
  show ?case using A [of "pos @ [0]" li] A [of "[0]" "[]"] by simp
next
  case (Location oper a)
  note A = foundSlots_from_children [of s a, OF Location]
  show ?case using A [of "pos @ [0]" li] A [of "[0]" "[]"] by simp
next
  case (TypedExp t a)
  note A = foundSlots_from_children [of s a, OF TypedExp]
  show ?case using A [of "pos @ [0]" li] A [of "[0]" "[]"] by simp
next
  case (RefExp a d)
  note A = foundSlots_from_children [of s a, OF RefExp]
  show ?case using A [of "pos @ [0]" li] A [of "[0]" "[]"] by simp
next
  case (Binary oper a b)
  note A = foundSlots_from_children [of s a, OF Binary(1)]
  note B = foundSlots_from_children [of s b, OF Binary(2)]
  show ?case
    using A [of "pos @ [0]" li] A [of "[0]" "[]"]
      B [of "pos @ [1]" "foundSlots s a (pos @ [0]) li False"]
      B [of "[1]" "foundSlots s a [0] [] False"]
    by (simp add: Let_def)
next
  case (Ternary oper a b c)
  note A = foundSlots_from_children [of s a, OF Ternary(1)]
  note B = foundSlots_from_children [of s b, OF Ternary(2)]
  note C = foundSlots_from_children [of s c, OF Ternary(3)]
  show ?case
    using A [of "pos @ [0]" li] A [of "[0]" "[]"]
      B [of "pos @ [1]" "foundSlots s a (pos @ [0]) li False"]
      B [of "[1]" "foundSlots s a [0] [] False"]
      C [of "pos @ [2]" "foundSlots s b (pos @ [1]) (foundSlots s a (pos @ [0]) li False) False"]
      C [of "[2]" "foundSlots s b [1] (foundSlots s a [0] [] False) False"]
    by (simp add: Let_def)
qed simp_all

lemma foundSlots_shift:
  "foundSlots s e pos li False = li @ map ((@) pos) (foundSlots s e [] [] False)"
  by (rule foundSlots_from_children) (rule foundChildSlots_shift)

lemma hits_unfold:
  "hits s e =
     (if eq_holds s e
      then [] # (if getOper e \<noteq> opSubscript then foundChildSlots s e [] [] False else [])
      else foundChildSlots s e [] [] False)"
  unfolding hits_def
  using foundChildSlots_shift [of s e "[]" "[[]]"]
  by (simp add: foundSlots.simps [of s e] Let_def)

lemma children_hits:
  "foundChildSlots s (Unary oper a) [] [] False
     = (if oper \<noteq> opInitValueOf then map ((#) 0) (hits s a) else [])"
  "foundChildSlots s (Location oper a) [] [] False
     = (if oper \<noteq> opInitValueOf then map ((#) 0) (hits s a) else [])"
  "foundChildSlots s (TypedExp t a) [] [] False = map ((#) 0) (hits s a)"
  "foundChildSlots s (RefExp a d) [] [] False = map ((#) 0) (hits s a)"
  "foundChildSlots s (Binary oper a b) [] [] False
     = map ((#) 0) (hits s a) @ map ((#) 1) (hits s b)"
  "foundChildSlots s (Ternary oper a b c) [] [] False
     = map ((#) 0) (hits s a) @ map ((#) 1) (hits s b) @ map ((#) 2) (hits s c)"
  unfolding hits_def
  using foundSlots_shift [of s a "[0]" "[]"]
    foundSlots_shift [of s b "[1]" "foundSlots s a [0] [] False"]
    foundSlots_shift [of s c "[2]" "foundSlots s b [1] (foundSlots s a [0] [] False) False"]
  by (simp_all add: Let_def)

lemma replaceSlots_append:
  "replaceSlots (xs @ ys) W r t = replaceSlots ys (rev xs @ W) r (replaceSlots xs W r t)"
  by (induction xs arbitrary: W t) simp_all

lemma detached_Nil [simp]: "detached [] pp = False"
  by (simp add: detached_def)

lemma detached_mono: "detached W pp \<Longrightarrow> detached (W' @ W) pp"
  by (auto simp: detached_def list_ex_iff)

lemma replaceSlots_all_detached:
  "(\<forall>pp \<in> set xs. detached W pp) \<Longrightarrow> replaceSlots xs W r t = t"
proof (induction xs arbitrary: W)
  case Nil
  show ?case by simp
next
  case (Cons pp xs)
  have "\<forall>q \<in> set xs. detached (pp # W) q"
    using Cons.prems detached_mono [of W _ "[pp]"] by simp
  then show ?case using Cons.IH [of "pp # W"] Cons.prems by simp
qed

lemma detached_Cons_local:
  assumes "\<forall>w \<in> set W. w \<noteq> [] \<and> hd w \<noteq> i"
  shows "detached (map ((#) i) V @ W) (i # pp) = detached V pp"
proof -
  have "\<not> (length w < length (i # pp) \<and> take (length w) (i # pp) = w)" if "w \<in> set W" for w
    using assms that by (cases w) auto
  then show ?thesis
    by (auto simp: detached_def list_ex_iff bex_Un)
qed

lemma putAt_child_same: "subAt t [i] = Some e \<Longrightarrow> putAt t [i] e = t"
  by (cases t) (auto split: if_splits)

lemma subAt_putAt_child:
  "subAt t [i] = Some e \<Longrightarrow> subAt (putAt t (i # pp) r) [i] = Some (putAt e pp r)"
  by (cases t) (auto split: if_splits)

lemma putAt_putAt_child:
  "subAt t [i] = Some e \<Longrightarrow> putAt (putAt t (i # pp) r) [i] x = putAt t [i] x"
  by (cases t) (auto split: if_splits)

lemma replaceSlots_local:
  assumes "subAt t [i] = Some e" and "\<forall>w \<in> set W. w \<noteq> [] \<and> hd w \<noteq> i"
  shows "replaceSlots (map ((#) i) xs) (map ((#) i) V @ W) r t
           = putAt t [i] (replaceSlots xs V r e)"
  using assms(1)
proof (induction xs arbitrary: t e V)
  case Nil
  then show ?case by (simp add: putAt_child_same)
next
  case (Cons pp xs)
  let ?d = "detached V pp"
  let ?t' = "if ?d then t else putAt t (i # pp) (clone r)"
  let ?e' = "if ?d then e else putAt e pp (clone r)"
  have sub: "subAt ?t' [i] = Some ?e'"
    using Cons.prems subAt_putAt_child [of t i e pp] by simp
  have "replaceSlots (map ((#) i) (pp # xs)) (map ((#) i) V @ W) r t
          = replaceSlots (map ((#) i) xs) (map ((#) i) (pp # V) @ W) r ?t'"
    using detached_Cons_local [OF assms(2), of V pp] by simp
  also have "\<dots> = putAt ?t' [i] (replaceSlots xs (pp # V) r ?e')"
    by (rule Cons.IH [OF sub])
  also have "\<dots> = putAt t [i] (replaceSlots xs (pp # V) r ?e')"
    using Cons.prems putAt_putAt_child [of t i e pp] by simp
  finally show ?case by simp
qed

lemma replaceSlots_child:
  assumes "subAt t [i] = Some e" and "\<forall>w \<in> set W. w \<noteq> [] \<and> hd w \<noteq> i"
  shows "replaceSlots (map ((#) i) xs) W r t = putAt t [i] (replaceSlots xs [] r e)"
  using replaceSlots_local [OF assms, of xs "[]" r] by simp

lemma replaceSlots_hits: "replaceSlots (hits s e) [] r e = replR s r e"
proof (induction e)
  case (Unary oper a)
  show ?case
  proof (cases "eq_holds s (Unary oper a)")
    case True
    have "\<forall>pp \<in> set (foundChildSlots s (Unary oper a) [] [] False). detached [[]] pp"
      by (auto simp: children_hits detached_def simp del: foundChildSlots.simps)
    then show ?thesis using True
      by (simp add: hits_unfold [of s "Unary oper a"] replaceSlots_all_detached del: foundChildSlots.simps)
  next
    case False
    then show ?thesis using Unary
      replaceSlots_child [of "Unary oper a" 0 a "[]" "hits s a" r]
      by (simp add: hits_unfold [of s "Unary oper a"] children_hits del: foundChildSlots.simps)
  qed
next
  case (Location oper a)
  show ?case
  proof (cases "eq_holds s (Location oper a)")
    case True
    have "\<forall>pp \<in> set (foundChildSlots s (Location oper a) [] [] False). detached [[]] pp"
      by (auto simp: children_hits detached_def simp del: foundChildSlots.simps)
    then show ?thesis using True
      by (simp add: hits_unfold [of s "Location oper a"] replaceSlots_all_detached del: foundChildSlots.simps)
  next
    case False
    then show ?thesis using Location
      replaceSlots_child [of "Location oper a" 0 a "[]" "hits s a" r]
      by (simp add: hits_unfold [of s "Location oper a"] children_hits del: foundChildSlots.simps)
  qed
next
  case (TypedExp t a)
  show ?case
  proof (cases "eq_holds s (TypedExp t a)")
    case True
    have "\<forall>pp \<in> set (foundChildSlots s (TypedExp t a) [] [] False). detached [[]] pp"
      by (auto simp: children_hits detached_def simp del: foundChildSlots.simps)
    then show ?thesis using True
      by (simp add: hits_unfold [of s "TypedExp t a"] replaceSlots_all_detached del: foundChildSlots.simps)
  next
    case False
    then show ?thesis using TypedExp
      replaceSlots_child [of "TypedExp t a" 0 a "[]" "hits s a" r]
      by (simp add: hits_unfold [of s "TypedExp t a"] children_hits del: foundChildSlots.simps)
  qed
next
  case (RefExp a d)
  show ?case
  proof (cases "eq_holds s (RefExp a d)")
    case True
    then show ?thesis
      by (simp add: hits_unfold [of s "RefExp a d"] del: foundChildSlots.simps)
  next
    case False
    then show ?thesis using RefExp
      replaceSlots_child [of "RefExp a d" 0 a "[]" "hits s a" r]
      by (simp add: hits_unfold [of s "RefExp a d"] children_hits del: foundChildSlots.simps)
  qed
next
  case (Binary oper a b)
  show ?case
  proof (cases "eq_holds s (Binary oper a b)")
    case True
    have "\<forall>pp \<in> set (foundChildSlots s (Binary oper a b) [] [] False). detached [[]] pp"
      by (auto simp: children_hits detached_def simp del: foundChildSlots.simps)
    then show ?thesis using True
      by (simp add: hits_unfold [of s "Binary oper a b"] replaceSlots_all_detached del: foundChildSlots.simps)
  next
    case False
    have W: "\<forall>w \<in> set (rev (map ((#) 0) (hits s a)) @ []). w \<noteq> [] \<and> hd w \<noteq> (1::nat)"
      by auto
    show ?thesis using False Binary
      replaceSlots_child [of "Binary oper a b" 0 a "[]" "hits s a" r]
      replaceSlots_child [of "Binary oper (replR s r a) b" 1 b _ "hits s b" r, OF _ W]
      by (simp add: hits_unfold [of s "Binary oper a b"] children_hits replaceSlots_append
          del: foundChildSlots.simps)
  qed
next
  case (Ternary oper a b c)
  show ?case
  proof (cases "eq_holds s (Ternary oper a b c)")
    case True
    have "\<forall>pp \<in> set (foundChildSlots s (Ternary oper a b c) [] [] False). detached [[]] pp"
      by (auto simp: children_hits detached_def simp del: foundChildSlots.simps)
    then show ?thesis using True
      by (simp add: hits_unfold [of s "Ternary oper a b c"] replaceSlots_all_detached del: foundChildSlots.simps)
  next
    case False
    have W1: "\<forall>w \<in> set (rev (map ((#) 0) (hits s a)) @ []). w \<noteq> [] \<and> hd w \<noteq> (1::nat)"
      by auto
    have W2: "\<forall>w \<in> set (rev (map ((#) 1) (hits s b)) @ rev (map ((#) 0) (hits s a)) @ []).
                w \<noteq> [] \<and> hd w \<noteq> (2::nat)"
      by auto
    show ?thesis using False Ternary
      replaceSlots_child [of "Ternary oper a b c" 0 a "[]" "hits s a" r]
      replaceSlots_child [of "Ternary oper (replR s r a) b c" 1 b _ "hits s b" r, OF _ W1]
      replaceSlots_child [of "Ternary oper (replR s r a) (replR s r b) c" 2 c _ "hits s c" r, OF _ W2]
      by (simp add: hits_unfold [of s "Ternary oper a b c"] children_hits replaceSlots_append
          del: foundChildSlots.simps)
  qed
qed (simp_all add: hits_unfold)

lemmas oper_family_defs = wildOper_def terminalOper_def unaryOper_def locationOper_def
  binaryOper_def ternaryOper_def

lemma stored_not_wild: "stored e \<Longrightarrow> \<not> wildOper (getOper e)"
  by (cases e; cases "getOper e") (auto simp: oper_family_defs elim: storedConst.elims)














lemma replR_keeps_init:
  "subAt e q = Some (Unary opInitValueOf c) \<Longrightarrow> \<not> matchOnPath s e q
     \<Longrightarrow> subAt (replR s r e) q = Some (Unary opInitValueOf c)"
  by (induction e q rule: subAt.induct) (auto split: if_splits)
section \<open>Unfolding the signature functions\<close>

lemmas getArgumentExp_defs =
  getArgumentExp_def Signature_getArgumentExp_def getParamExp_def
  Win32Signature_getArgumentExp_def PentiumSignature_getArgumentExp_def
  Win32TcSignature_getArgumentExp_def SparcSignature_getArgumentExp_def
  PPCSignature_getArgumentExp_def MIPSSignature_getArgumentExp_def
  ST20Signature_getArgumentExp_def

section \<open>Properties of the partition\<close>

lemma terms_value_pushTerm:
  "terms_value \<rho> (pushTerm e ts negate) = terms_value \<rho> ts + (if negate then - \<rho> e else \<rho> e)"
  by (cases ts) (simp add: terms_value_def pushTerm_def)

lemma terms_value_pushInt:
  "terms_value \<rho> (pushInt k ts negate) = terms_value \<rho> ts + (if negate then - k else k)"
  by (cases ts) (simp add: terms_value_def pushInt_def)

lemma partitionTerms_adds:
  "sum_shaped e \<Longrightarrow>
     \<exists>ts. partitionTerms e ts0 negate = Inr ts
        \<and> terms_value \<rho> ts
            = terms_value \<rho> ts0 + (if negate then - spec_sum_value \<rho> e else spec_sum_value \<rho> e)"
proof (induction e arbitrary: ts0 negate)
  case (Binary oper a b)
  show ?case
  proof (cases "oper = opPlus")
    case True
    obtain ts1 where a: "partitionTerms a ts0 negate = Inr ts1"
      and va: "terms_value \<rho> ts1
            = terms_value \<rho> ts0 + (if negate then - spec_sum_value \<rho> a else spec_sum_value \<rho> a)"
      using Binary.IH(1) [of ts0 negate] Binary.prems True by auto
    obtain ts2 where b: "partitionTerms b ts1 negate = Inr ts2"
      and vb: "terms_value \<rho> ts2
            = terms_value \<rho> ts1 + (if negate then - spec_sum_value \<rho> b else spec_sum_value \<rho> b)"
      using Binary.IH(2) [of ts1 negate] Binary.prems True by auto
    show ?thesis using True a b va vb by simp
  next
    case np: False
    show ?thesis
    proof (cases "oper = opMinus")
      case True
      obtain ts1 where a: "partitionTerms a ts0 negate = Inr ts1"
        and va: "terms_value \<rho> ts1
            = terms_value \<rho> ts0 + (if negate then - spec_sum_value \<rho> a else spec_sum_value \<rho> a)"
        using Binary.IH(1) [of ts0 negate] Binary.prems True by auto
      obtain ts2 where b: "partitionTerms b ts1 (\<not> negate) = Inr ts2"
        and vb: "terms_value \<rho> ts2
            = terms_value \<rho> ts1 + (if \<not> negate then - spec_sum_value \<rho> b else spec_sum_value \<rho> b)"
        using Binary.IH(2) [of ts1 "\<not> negate"] Binary.prems True by auto
      show ?thesis using True a b va vb by simp
    next
      case False
      then show ?thesis using np Binary.prems by (simp add: terms_value_pushTerm)
    qed
  qed
next
  case (TypedExp t a)
  show ?case using TypedExp.IH [of ts0 negate] TypedExp.prems by (cases negate) auto
next
  case (Const v c)
  then show ?case by (cases v) (simp_all add: terms_value_pushTerm terms_value_pushInt)
qed (simp_all add: terms_value_pushTerm)

section \<open>Evaluating the simplifier\<close>

lemma shiftCount_1: "shiftCount 1 = Some 1"
  by code_simp

lemma shiftCount_31: "shiftCount 31 = Some 31"
  by code_simp

lemma foldConst_ShiftRA_8_1: "foldConst \<Gamma> opShiftRA 8 1 = Some (Inr 0x80000004)"
proof -
  have "signed_drop_bit 1 (8::32 word) OR push_bit 31 (push_bit 1 1 - 1) = 0x80000004"
    by code_simp
  then show ?thesis
    by (simp add: foldConst_def shiftL_def shiftR_def shiftCount_1 shiftCount_31)
qed

lemma foldConst_Div_1_0: "foldConst \<Gamma> opDiv 1 0 = Some (Inl DivisionByZero)"
  by (simp add: foldConst_def)

lemmas binary_rules_defs =
  binaryStep_def binaryRulesA_def binaryRulesB_def binaryRulesC_def binaryRulesD_def
  commutations_def commute_int_left_def commute_bool_left_def commute_global_right_def
  isAddrOfSubscriptedGlobal_def flip_negative_const_def
  rule_fold_def rule_xor_minus_self_def rule_or_and_self_def rule_equals_self_def
  rule_plus_plus_const_def rule_minus_plus_const_def rule_mult_minus_self_def
  rule_self_plus_mult_def rule_zero_right_def rule_or_false_def rule_times_zero_def
  rule_and_false_def rule_times_one_def rule_mult_div_same_def rule_div_one_def
  rule_mod_one_def rule_mult_mod_same_def rule_and_minus_one_def rule_and_true_def
  rule_or_true_def rule_shift_left_def rule_shift_right_def rule_eq_eq_one_def
  rule_plus_neg_eq_zero_def rule_eq_eq_zero_def rule_eq_ne_one_def rule_eq_ne_zero_def
  rule_neg_ne_zero_def rule_gtr_eq_zero_def rule_gtruns_eq_zero_def rule_le_or_eq_def
  rule_bitand_self_def rule_self_plus_mult_const_def rule_mult_mult_const_def
  rule_lnot_equals_def rule_lnot_not_equal_def rule_compound_offset_def
  rule_fminus_zero_def rule_mult_plus_same_const_def rule_plus_mult_plus_same_const_def
  rule_div_sum_of_products_def sumOfProducts_def rule_mod_sum_of_products_def
  rule_mask_of_nonzero_def rule_size_of_location_def
  isIntConst_def isBoolConst_def isTrue_def isFalse_def isAddrOf_def isSubscript_def
  isGlobal_def isLocation_def isTrueOrNonzero_def int1_def int2_def liftChildren_def
  whenEq_def andAlsoEq_def orElseEq_def

text \<open>
  The address of a global with the null definition, \<open>a[g{-}]\<close>, is left as it is; the
  flag comes back as the leaf \<open>g\<close> leaves it.
\<close>

lemma polySimplify_addrOf_global:
  "polySimplify \<Gamma> (Suc (Suc (Suc (Suc n))))
     (Unary opAddrOf (RefExp (Location opGlobal (Const (StrV nam) 0)) DefNull)) b
   = Ok (Unary opAddrOf (RefExp (Location opGlobal (Const (StrV nam) 0)) DefNull),
         if base_clears \<Gamma> then False else b)"
  by (simp add: unaryStep_def negatedComparison_def locationRule_def refRules_def isRegN_def)

text \<open>One pass over the sum of two such addresses swaps them and reports no change.\<close>

lemma polySimplify_sum_of_globals:
  "polySimplify \<Gamma> (Suc (Suc (Suc (Suc (Suc n)))))
     (Binary opPlus (Unary opAddrOf (RefExp (Location opGlobal (Const (StrV g) 0)) DefNull))
                    (Unary opAddrOf (RefExp (Location opGlobal (Const (StrV h) 0)) DefNull)))
     False
   = Ok (Binary opPlus (Unary opAddrOf (RefExp (Location opGlobal (Const (StrV h) 0)) DefNull))
                       (Unary opAddrOf (RefExp (Location opGlobal (Const (StrV g) 0)) DefNull)),
         False)"
  apply (subst polySimplify.simps)
  apply (simp only: polySimplify_addrOf_global)
  apply (simp add: binary_rules_defs Const_get_def)
  done

lemma simplify_sum_of_globals:
  "simplify \<Gamma> (n + 6)
     (Binary opPlus (Unary opAddrOf (RefExp (Location opGlobal (Const (StrV g) 0)) DefNull))
                    (Unary opAddrOf (RefExp (Location opGlobal (Const (StrV h) 0)) DefNull)))
   = Ok (Binary opPlus (Unary opAddrOf (RefExp (Location opGlobal (Const (StrV h) 0)) DefNull))
                       (Unary opAddrOf (RefExp (Location opGlobal (Const (StrV g) 0)) DefNull)))"
proof -
  have "n + 6 = Suc (Suc (Suc (Suc (Suc (Suc n)))))"
    by simp
  then show ?thesis
    by (simp only:) (subst simplify.simps, simp add: polySimplify_sum_of_globals del: polySimplify.simps)
qed

text \<open>
  A typed expression simplifies its child with \<open>simplify\<close> and reports nothing; it looks
  for a register under it before that. \<open>simplify\<close> of the typed \<open>r24 + 0\<close> is the typed
  \<open>r24\<close>, on which the next \<open>simplify\<close> drops the type.
\<close>

lemma polySimplify_regOf:
  "polySimplify \<Gamma> (Suc (Suc n)) (regOf k) b = Ok (regOf k, if base_clears \<Gamma> then False else b)"
  by (simp add: regOf_def Const_get_def unaryStep_def negatedComparison_def locationRule_def)

lemma simplify_regOf: "simplify \<Gamma> (Suc (Suc (Suc n))) (regOf k) = Ok (regOf k)"
  by (subst simplify.simps) (simp add: polySimplify_regOf del: polySimplify.simps)

lemma polySimplify_regOf_plus_0:
  "polySimplify \<Gamma> (Suc (Suc (Suc n))) (Binary opPlus (regOf k) (Const_get 0)) False
     = Ok (regOf k, True)"
  apply (subst polySimplify.simps)
  apply (simp only: polySimplify_regOf)
  apply (simp add: binary_rules_defs Const_get_def regOf_def)
  done

lemma simplify_regOf_plus_0:
  "simplify \<Gamma> (Suc (Suc (Suc (Suc n)))) (Binary opPlus (regOf k) (Const_get 0)) = Ok (regOf k)"
  by (subst simplify.simps)
     (simp add: polySimplify_regOf_plus_0 simplify_regOf del: polySimplify.simps simplify.simps)

lemma simplify_typed_sum:
  "simplify \<Gamma> (n + 6) (TypedExp t (Binary opPlus (regOf k) (Const_get 0)))
     = Ok (TypedExp t (regOf k))
   \<and> simplify \<Gamma> (n + 6) (TypedExp t (regOf k)) = Ok (regOf k)
   \<and> exp_eq (regOf k) (TypedExp t (regOf k)) = Inr False"
proof -
  have fuel: "n + 6 = Suc (Suc (Suc (Suc (Suc (Suc n)))))"
    by simp
  have "polySimplify \<Gamma> (Suc (Suc (Suc (Suc (Suc n)))))
          (TypedExp t (Binary opPlus (regOf k) (Const_get 0))) False
        = Ok (TypedExp t (regOf k), False)"
    by (subst polySimplify.simps)
       (simp add: simplify_regOf_plus_0 del: polySimplify.simps simplify.simps)
  then have "simplify \<Gamma> (n + 6) (TypedExp t (Binary opPlus (regOf k) (Const_get 0)))
        = Ok (TypedExp t (regOf k))"
    unfolding fuel
    by (subst simplify.simps) (simp del: polySimplify.simps simplify.simps)
  moreover have "polySimplify \<Gamma> (Suc (Suc (Suc (Suc (Suc n))))) (TypedExp t (regOf k)) False
        = Ok (regOf k, True)"
    by (simp add: regOf_def)
  then have "simplify \<Gamma> (n + 6) (TypedExp t (regOf k)) = Ok (regOf k)"
    unfolding fuel
    by (subst simplify.simps)
       (simp add: simplify_regOf del: polySimplify.simps simplify.simps)
  moreover have "exp_eq (regOf k) (TypedExp t (regOf k)) = Inr False"
    by (simp add: regOf_def)
  ultimately show ?thesis by simp
qed
section \<open>Comparisons and searches that return\<close>

text \<open>
  \<open>operator==\<close> returns true exactly where \<open>eq_holds\<close> holds, and \<open>doSearch\<close>
  returns the list \<open>foundSlots\<close> or runs into an assertion. Neither runs into an
  assertion when the searched expression is a stored one or when the pattern has no long and
  no function constant.
\<close>

lemma cval_eq_Inr: "cval_eq v v' = Inr r \<Longrightarrow> r = cval_eq_holds v v'"
  by (cases v; cases v') simp_all

lemma exp_eq_Inr: "exp_eq a b = Inr r \<Longrightarrow> r = eq_holds a b"
proof (induction a arbitrary: b r)
  case (Const v c)
  then show ?case by (auto split: if_splits exp.splits dest: cval_eq_Inr)
next
  case (Binary oper a1 a2)
  then show ?case
    by (auto split: if_splits option.splits sum.splits)
next
  case (Ternary oper a1 a2 a3)
  then show ?case
    by (auto split: if_splits exp.splits sum.splits)
next
  case (RefExp a d)
  then show ?case
    by (auto split: if_splits exp.splits sum.splits)
qed (auto split: if_splits option.splits exp.splits)

lemma cval_eq_Inl: "cval_eq v v' = Inl f \<Longrightarrow> \<not> cval_eq_holds v v'"
  by (cases v; cases v') simp_all

lemma exp_eq_Inl: "exp_eq a b = Inl f \<Longrightarrow> \<not> eq_holds a b"
proof (induction a arbitrary: b f)
  case (Const v c)
  then show ?case by (auto split: if_splits exp.splits dest: cval_eq_Inl)
next
  case (Binary oper a1 a2)
  then show ?case
    by (auto split: if_splits option.splits sum.splits dest: exp_eq_Inr)
next
  case (Ternary oper a1 a2 a3)
  then show ?case
    by (auto split: if_splits exp.splits sum.splits dest: exp_eq_Inr)
next
  case (RefExp a d)
  then show ?case
    by (auto split: if_splits exp.splits sum.splits dest: exp_eq_Inr)
qed (auto split: if_splits option.splits exp.splits)

lemma exp_eq_holds: "eq_holds a b \<longleftrightarrow> exp_eq a b = Inr True"
proof (cases "exp_eq a b")
  case (Inl f)
  then show ?thesis using exp_eq_Inl by simp
next
  case (Inr r)
  then show ?thesis using exp_eq_Inr by auto
qed

lemma exp_eq_cases:
  "exp_eq a b = Inr (eq_holds a b) \<or> (\<exists>f. exp_eq a b = Inl f \<and> \<not> eq_holds a b)"
  by (cases "exp_eq a b") (auto dest: exp_eq_Inl exp_eq_Inr)

declare doSearch.simps [simp del]

lemma doSearch_foundSlots:
  "doSearch s e pos li once = Inr r \<Longrightarrow> r = foundSlots s e pos li once"
  "doSearchChildren s e pos li once = Inr r \<Longrightarrow> r = foundChildSlots s e pos li once"
proof (induction s e pos li once and s e pos li once arbitrary: r and r
       rule: doSearch_doSearchChildren.induct)
  case (1 search pSrc pos li once)
  from "1.prems" obtain c where c: "exp_eq search pSrc = Inr c"
    by (auto simp: doSearch.simps [of search pSrc] split: sum.splits)
  then have h: "c = eq_holds search pSrc" by (rule exp_eq_Inr)
  show ?case
    using "1.prems" "1.IH" [OF c] c h
    by (auto simp: doSearch.simps [of search pSrc] foundSlots.simps [of search pSrc] Let_def
        split: if_splits)
next
  case (6 search oper a b pos li once)
  then show ?case by (auto simp: Let_def split: sum.splits if_splits)
next
  case (7 search oper a b c pos li once)
  then show ?case by (auto simp: Let_def split: sum.splits if_splits)
qed (auto split: if_splits)

lemma stored_getSubExp1: "stored e \<Longrightarrow> getSubExp1 e = Some b \<Longrightarrow> stored b"
  by (cases e) auto

lemma stored_getSubExp2: "stored e \<Longrightarrow> getSubExp2 e = Some b \<Longrightarrow> stored b"
  by (cases e) auto

lemma cval_eq_stored:
  "cval_eq v v' = Inl f \<Longrightarrow> storedConst v' \<Longrightarrow> cval_oper v = cval_oper v' \<Longrightarrow> False"
  by (cases v; cases v') simp_all

lemma exp_eq_stored_returns: "exp_eq p e = Inl f \<Longrightarrow> stored e \<Longrightarrow> False"
proof (induction p arbitrary: e f)
  case (Const v c)
  then show ?case by (auto split: if_splits exp.splits dest: cval_eq_stored)
next
  case (Unary oper a)
  then show ?case by (auto split: if_splits option.splits dest: stored_getSubExp1)
next
  case (Location oper a)
  then show ?case by (auto split: if_splits option.splits dest: stored_getSubExp1)
next
  case (Binary oper a1 a2)
  then show ?case
    by (cases e) (auto split: if_splits sum.splits)
next
  case (Ternary oper a1 a2 a3)
  then show ?case by (auto split: if_splits exp.splits sum.splits)
next
  case (TypedExp t a)
  then show ?case by (auto split: if_splits exp.splits)
next
  case (RefExp a d)
  then show ?case by (auto split: if_splits exp.splits sum.splits)
qed (auto split: if_splits exp.splits)

lemma exp_eq_stored: "stored e \<Longrightarrow> exp_eq p e = Inr (eq_holds p e)"
  using exp_eq_cases [of p e] exp_eq_stored_returns by blast

lemma cval_eq_plain: "cval_eq v v' = Inl f \<Longrightarrow> plainConst v \<Longrightarrow> False"
  by (cases v; cases v') simp_all

lemma exp_eq_plain_returns: "exp_eq p e = Inl f \<Longrightarrow> plainConsts p \<Longrightarrow> False"
proof (induction p arbitrary: e f)
  case (Const v c)
  then show ?case by (auto split: if_splits exp.splits dest: cval_eq_plain)
next
  case (Binary oper a1 a2)
  then show ?case by (auto split: if_splits option.splits sum.splits)
next
  case (Ternary oper a1 a2 a3)
  then show ?case by (auto split: if_splits exp.splits sum.splits)
next
  case (RefExp a d)
  then show ?case by (auto split: if_splits exp.splits sum.splits)
qed (auto split: if_splits option.splits exp.splits)

lemma exp_eq_plain: "plainConsts p \<Longrightarrow> exp_eq p e = Inr (eq_holds p e)"
  using exp_eq_cases [of p e] exp_eq_plain_returns by blast


lemma doSearch_plain:
  "plainConsts s \<Longrightarrow> doSearch s e pos li once = Inr (foundSlots s e pos li once)"
  "plainConsts s \<Longrightarrow> doSearchChildren s e pos li once = Inr (foundChildSlots s e pos li once)"
proof (induction s e pos li once and s e pos li once
       rule: foundSlots_foundChildSlots.induct)
  case (1 pat pSrc pos li once)
  then show ?case
    by (auto simp: doSearch.simps [of pat pSrc] foundSlots.simps [of pat pSrc] Let_def
        exp_eq_plain)
qed (auto simp: Let_def)

lemma exp_eq_regOf_returns: "exp_eq a (regOf k) = Inr (eq_holds a (regOf k))"
  by (rule exp_eq_stored) (simp add: regOf_def Const_get_def oper_family_defs)


lemma searchReplaceAll_replR:
  "doSearch s e [] [] False = Inr li \<Longrightarrow>
     searchReplaceAll False e s r False = Inr (replR s r e, hits s e \<noteq> [])"
  using doSearch_foundSlots(1) [of s e "[]" "[]" False li]
  by (simp add: searchReplaceAll_def hits_def [symmetric] replaceSlots_hits)



section \<open>Equality of constants with a conscript\<close>

text \<open>
  C1. Strict equality is claimed to be reflexive on every expression without wildcards,
  a constant with a conscript included, and two constants with the same tag, value and
  conscript are claimed to be equal. \<open>Const::operator==\<close> returns false as soon as the
  right operand has a conscript: the integer constant 5 with conscript 1 is not equal to
  itself, while \<open>operator<\<close> orders the same two constants as equal.
\<close>

theorem Const_conscript_not_reflexive:
  "exp_eq (Const (IntV 5) 1) (Const (IntV 5) 1) = Inr False"
  by simp

section \<open>The stack register of the base signature\<close>

text \<open>
  C9. A signature of the base class, whatever its parameters and returns, answers
  \<open>getStackRegister()\<close> with the exception \<open>StackRegisterNotDefinedException\<close> and
  never with a register.
\<close>

theorem base_getStackRegister_throws:
  "sig_class s = BaseSignature \<Longrightarrow>
     getStackRegister s = Inl StackRegisterNotDefinedException \<and> (\<forall>r. getStackRegister s \<noteq> Inr r)"
  by (simp add: getStackRegister_def)

theorem base_getStackRegister_throws_witness:
  "sig_class (base_fresh ''main'') = BaseSignature
   \<and> getStackRegister (base_fresh ''main'') = Inl StackRegisterNotDefinedException
   \<and> (\<forall>r. getStackRegister (base_fresh ''main'') \<noteq> Inr r)"
  using base_getStackRegister_throws [of "base_fresh ''main''"]
  by (simp add: base_fresh_def)

section \<open>Preserved registers and proven values\<close>

text \<open>
  C7. For every calling convention and every register \<open>r\<close>, if \<open>isPreserved(r[r])\<close>
  is true then \<open>getProven(r[r])\<close> is claimed to return \<open>r[r]\<close>. In
  \<open>Win32Signature\<close> (and, with the same bodies, in \<open>PentiumSignature\<close>)
  \<open>isPreserved\<close> lists the registers 3, 5, 6, 7, 11 and 15 (bx, bp, si, di, bl, bh)
  beside 27, 29, 30 and 31, while \<open>getProven\<close> has cases for 27 to 31 only: for
  \<open>r[3]\<close> the first answers true and the second returns the null pointer.
\<close>

theorem Win32_preserved_without_proven:
  "isPreserved base_isPreserved (win32_fresh ''f'') (regOf 3) = True
   \<and> getProven base_getProven (win32_fresh ''f'') (regOf 3) = None
   \<and> PentiumSignature_isPreserved (regOf 3) = True
   \<and> PentiumSignature_getProven (regOf 3) = None"
  by (simp add: isPreserved_def getProven_def win32_fresh_def Win32Signature_isPreserved_def
      Win32Signature_getProven_def PentiumSignature_isPreserved_def PentiumSignature_getProven_def
      regNumber_def isRegOfK_def regOf_def Const_get_def)

section \<open>Argument locations of the Win32 signature\<close>

text \<open>
  C8, as stated: with no parameter set, \<open>getArgumentExp(n)\<close> of the Win32 signature is
  \<open>m[r28 + (4 + 4*(n+1))]\<close>, which for \<open>n = 0\<close> is \<open>m[r28 + 8]\<close>. The code returns
  \<open>m[r28 + 4]\<close>.
\<close>

theorem Win32_getArgumentExp_0_counterexample:
  "getArgumentExp (win32_fresh ''f'') 0
     \<noteq> Inr (memOf (Binary opPlus (regOf 28) (Const_get (4 + 4 * (0 + 1)))))"
  by (simp add: getArgumentExp_def win32_fresh_def Win32Signature_getArgumentExp_def
      Const_get_def memOf_def)

text \<open>
  C8, amended: for a Win32 signature with no parameter set and every \<open>n \<ge> 0\<close>,
  \<open>getArgumentExp(n)\<close> returns the stack slot \<open>m[r28 + 4*(n+1)]\<close> (the constant taken
  in 32 bits), so \<open>getArgumentExp(0)\<close> is \<open>m[r28 + 4]\<close>; and for every index the result
  is a function of the index and the parameter list: two signatures of one class with the
  same parameter list, whatever their names, returns and flags, give the same result, be it
  an expression or a fault.
\<close>

theorem Win32_getArgumentExp_stack_slot:
  "(sig_class s = Win32Signature \<and> sig_params s = [] \<and> 0 \<le> n \<longrightarrow>
      getArgumentExp s n
        = Inr (memOf (Binary opPlus (regOf 28) (Const_get (word_of_int (4 * (n + 1)))))))
   \<and> (sig_class s' = sig_class s \<and> sig_params s' = sig_params s \<longrightarrow>
        getArgumentExp s' m = getArgumentExp s m)"
proof (intro conjI impI)
  assume "sig_class s = Win32Signature \<and> sig_params s = [] \<and> 0 \<le> n"
  then show "getArgumentExp s n
        = Inr (memOf (Binary opPlus (regOf 28) (Const_get (word_of_int (4 * (n + 1))))))"
    by (simp add: getArgumentExp_defs Let_def mult.commute)
next
  assume "sig_class s' = sig_class s \<and> sig_params s' = sig_params s"
  then show "getArgumentExp s' m = getArgumentExp s m"
    by (cases "sig_class s") (simp_all add: getArgumentExp_defs)
qed

theorem Win32_getArgumentExp_stack_slot_witness:
  "sig_class (win32_fresh ''f'') = Win32Signature \<and> sig_params (win32_fresh ''f'') = []
   \<and> (0::int) \<le> 3
   \<and> getArgumentExp (win32_fresh ''f'') 3
        = Inr (memOf (Binary opPlus (regOf 28) (Const_get 16)))
   \<and> getArgumentExp (win32_fresh ''f'') 0
        = Inr (memOf (Binary opPlus (regOf 28) (Const_get 4)))
   \<and> sig_class ((win32_fresh ''g'')
        \<lparr>sig_params := [\<lparr>param_type = IntegerType 32, param_name = ''a'',
                          param_exp = regOf 28, param_boundMax = ''''\<rparr>],
         sig_unknown := False\<rparr>)
      = sig_class ((win32_fresh ''f'')
        \<lparr>sig_params := [\<lparr>param_type = IntegerType 32, param_name = ''a'',
                          param_exp = regOf 28, param_boundMax = ''''\<rparr>]\<rparr>)
   \<and> sig_params ((win32_fresh ''g'')
        \<lparr>sig_params := [\<lparr>param_type = IntegerType 32, param_name = ''a'',
                          param_exp = regOf 28, param_boundMax = ''''\<rparr>],
         sig_unknown := False\<rparr>)
      = sig_params ((win32_fresh ''f'')
        \<lparr>sig_params := [\<lparr>param_type = IntegerType 32, param_name = ''a'',
                          param_exp = regOf 28, param_boundMax = ''''\<rparr>]\<rparr>)
   \<and> getArgumentExp ((win32_fresh ''g'')
        \<lparr>sig_params := [\<lparr>param_type = IntegerType 32, param_name = ''a'',
                          param_exp = regOf 28, param_boundMax = ''''\<rparr>],
         sig_unknown := False\<rparr>) 2
      = getArgumentExp ((win32_fresh ''f'')
        \<lparr>sig_params := [\<lparr>param_type = IntegerType 32, param_name = ''a'',
                          param_exp = regOf 28, param_boundMax = ''''\<rparr>]\<rparr>) 2
   \<and> getArgumentExp ((win32_fresh ''f'')
        \<lparr>sig_params := [\<lparr>param_type = IntegerType 32, param_name = ''a'',
                          param_exp = regOf 28, param_boundMax = ''''\<rparr>]\<rparr>) 2
      = Inr (memOf (Binary opPlus (regOf 28) (Const_get 8)))"
  using Win32_getArgumentExp_stack_slot [of "win32_fresh ''f''" 3 "win32_fresh ''f''" 0]
        Win32_getArgumentExp_stack_slot [of
          "(win32_fresh ''f'')
             \<lparr>sig_params := [\<lparr>param_type = IntegerType 32, param_name = ''a'',
                               param_exp = regOf 28, param_boundMax = ''''\<rparr>]\<rparr>"
          0
          "(win32_fresh ''g'')
             \<lparr>sig_params := [\<lparr>param_type = IntegerType 32, param_name = ''a'',
                               param_exp = regOf 28, param_boundMax = ''''\<rparr>],
              sig_unknown := False\<rparr>"
          2]
  by (simp add: win32_fresh_def getArgumentExp_defs regOf_def Const_get_def memOf_def)
section \<open>Search does not enter an initial value\<close>

text \<open>
  C10. For every pattern and every expression, whenever \<open>doSearch\<close> returns, with
  \<open>once\<close> set or not, no slot of its list lies in the child of a unary
  \<open>opInitValueOf\<close> node, so \<open>search\<close>, \<open>searchAll\<close> and \<open>searchReplaceAll\<close> never
  find anything there. (It returns for every pattern without long and function constants;
  otherwise a comparison may run into the assertion of \<open>Const::operator==\<close>, and the
  search reports nothing at all.) On an \<open>opInitValueOf\<close> node with which the comparison
  of the pattern returns false they find nothing and replace nothing. \<open>searchReplaceAll\<close>
  returns every \<open>opInitValueOf\<close> node of the expression unchanged unless the node or a
  node above it matches. Only when the pattern is the searched object itself does it not
  search: it returns the replacement for the whole expression.
\<close>

theorem search_skips_InitValueOf:
  "(doSearch pat e [] [] once = Inr li \<longrightarrow> (\<forall>pp \<in> set li. \<not> initOnPath e pp))
   \<and> (plainConsts pat \<longrightarrow> (\<exists>li'. doSearch pat e [] [] once = Inr li'))
   \<and> (exp_eq pat (Unary opInitValueOf c) = Inr False \<longrightarrow>
        doSearch pat (Unary opInitValueOf c) [] [] once = Inr []
        \<and> search (Unary opInitValueOf c) pat = Inr (False, None)
        \<and> searchAll (Unary opInitValueOf c) pat [] = Inr (False, [])
        \<and> searchReplaceAll False (Unary opInitValueOf c) pat r once
            = Inr (Unary opInitValueOf c, False))
   \<and> (\<forall>q. searchReplaceAll False e pat r False = Inr (x, ch)
            \<and> subAt e q = Some (Unary opInitValueOf c) \<and> \<not> matchOnPath pat e q \<longrightarrow>
          subAt x q = Some (Unary opInitValueOf c))
   \<and> searchReplaceAll True e pat r once = Inr (r, True)"
proof (intro conjI ballI allI impI)
  fix pp assume "doSearch pat e [] [] once = Inr li" and "pp \<in> set li"
  then have "pp \<in> set (foundSlots pat e [] [] once)"
    using doSearch_foundSlots(1) by blast
  then have "pp \<in> okPaths e []" using foundSlots_paths(1) [of pat e "[]" "[]" once] by auto
  then show "\<not> initOnPath e pp" by (auto simp: okPaths_def)
next
  assume "plainConsts pat"
  then show "\<exists>li'. doSearch pat e [] [] once = Inr li'"
    by (simp add: doSearch_plain)
next
  assume n: "exp_eq pat (Unary opInitValueOf c) = Inr False"
  then show d: "doSearch pat (Unary opInitValueOf c) [] [] once = Inr []"
    by (simp add: doSearch.simps [of pat "Unary opInitValueOf c"])
  from n have d': "doSearch pat (Unary opInitValueOf c) [] [] False = Inr []"
    by (simp add: doSearch.simps [of pat "Unary opInitValueOf c"])
  show "search (Unary opInitValueOf c) pat = Inr (False, None)"
    by (simp add: search_def d')
  show "searchAll (Unary opInitValueOf c) pat [] = Inr (False, [])"
    by (simp add: searchAll_def d')
  show "searchReplaceAll False (Unary opInitValueOf c) pat r once
          = Inr (Unary opInitValueOf c, False)"
    by (simp add: searchReplaceAll_def d')
next
  fix q
  assume a: "searchReplaceAll False e pat r False = Inr (x, ch)
             \<and> subAt e q = Some (Unary opInitValueOf c) \<and> \<not> matchOnPath pat e q"
  then obtain li' where "doSearch pat e [] [] False = Inr li'"
    by (auto simp: searchReplaceAll_def split: sum.splits)
  then have "x = replR pat r e"
    using a by (simp add: searchReplaceAll_replR)
  with a show "subAt x q = Some (Unary opInitValueOf c)"
    by (simp add: replR_keeps_init)
next
  show "searchReplaceAll True e pat r once = Inr (r, True)"
    by (simp add: searchReplaceAll_def)
qed

theorem search_skips_InitValueOf_witness:
  "doSearch (regOf 24) (Binary opPlus (Unary opInitValueOf (regOf 24)) (regOf 24)) [] [] False
     = Inr [[1]]
   \<and> \<not> initOnPath (Binary opPlus (Unary opInitValueOf (regOf 24)) (regOf 24)) [1]
   \<and> plainConsts (regOf 24)
   \<and> exp_eq (regOf 24) (Unary opInitValueOf (regOf 24)) = Inr False
   \<and> searchReplaceAll False (Unary opInitValueOf (regOf 24)) (regOf 24) (regOf 25) False
        = Inr (Unary opInitValueOf (regOf 24), False)
   \<and> searchReplaceAll False (Binary opPlus (Unary opInitValueOf (regOf 24)) (regOf 24))
          (regOf 24) (regOf 25) False
        = Inr (Binary opPlus (Unary opInitValueOf (regOf 24)) (regOf 25), True)
   \<and> subAt (Binary opPlus (Unary opInitValueOf (regOf 24)) (regOf 24)) [0]
        = Some (Unary opInitValueOf (regOf 24))
   \<and> \<not> matchOnPath (regOf 24) (Binary opPlus (Unary opInitValueOf (regOf 24)) (regOf 24)) [0]
   \<and> subAt (Binary opPlus (Unary opInitValueOf (regOf 24)) (regOf 25)) [0]
        = Some (Unary opInitValueOf (regOf 24))"
  using search_skips_InitValueOf [of "regOf 24"
      "Binary opPlus (Unary opInitValueOf (regOf 24)) (regOf 24)" False "[[1]]" "regOf 24"
      "regOf 25" "Binary opPlus (Unary opInitValueOf (regOf 24)) (regOf 25)" True]
  by (simp add: doSearch.simps searchReplaceAll_def detached_def regOf_def Const_get_def)

section \<open>Replacing there and back\<close>



section \<open>The partition keeps the value\<close>

text \<open>
  C5. For every expression built from \<open>+\<close> and \<open>-\<close> (typed wrappers transparent) over
  integer constants and other subterms, \<open>partitionTerms\<close>, started with empty lists and
  \<open>negate = false\<close>, returns lists of positive terms, negative terms and integers such that
  the sum of the positives minus the sum of the negatives plus the sum of the integers is, in
  32 bit two's complement arithmetic and for every valuation of the other subterms, the value
  of the expression.
\<close>

theorem partitionTerms_correct:
  assumes "sum_shaped e"
  shows "\<exists>ts. partitionTerms e ([], [], []) False = Inr ts
            \<and> terms_value \<rho> ts = spec_sum_value \<rho> e"
  using partitionTerms_adds [OF assms, of "([], [], [])" False \<rho>]
  by (simp add: terms_value_def)

theorem partitionTerms_correct_witness:
  "sum_shaped (Binary opMinus
      (Binary opPlus (Binary opPlus (Terminal opAFP) (Const_get 108)) (Terminal opPC))
      (Binary opPlus (Terminal opAFP) (Const_get 92)))
   \<and> partitionTerms (Binary opMinus
      (Binary opPlus (Binary opPlus (Terminal opAFP) (Const_get 108)) (Terminal opPC))
      (Binary opPlus (Terminal opAFP) (Const_get 92))) ([], [], []) False
       = Inr ([Terminal opAFP, Terminal opPC], [Terminal opAFP], [108, - 92])
   \<and> terms_value (\<lambda>e. 5) ([Terminal opAFP, Terminal opPC], [Terminal opAFP], [108, - 92]) = 21
   \<and> spec_sum_value (\<lambda>e. 5) (Binary opMinus
      (Binary opPlus (Binary opPlus (Terminal opAFP) (Const_get 108)) (Terminal opPC))
      (Binary opPlus (Terminal opAFP) (Const_get 92))) = 21"
  using partitionTerms_correct [of "Binary opMinus
      (Binary opPlus (Binary opPlus (Terminal opAFP) (Const_get 108)) (Terminal opPC))
      (Binary opPlus (Terminal opAFP) (Const_get 92))" "\<lambda>e. 5"]
  by (simp add: Const_get_def pushTerm_def pushInt_def terms_value_def)
section \<open>Folding an arithmetic right shift\<close>

text \<open>
  C2. For every closed integer expression over the supported arithmetic, bitwise, shift and
  comparison operators, the expression and its \<open>simplify\<close> are claimed to have the same
  value in 32 bit two's complement arithmetic, an arithmetic right shift copying the sign bit
  into the high bits. The fold of \<open>k1 >>A k2\<close> computes
  \<open>(k1 >> k2) | (((1 << k2) - 1) << (32 - k2))\<close>: it sets the high \<open>k2\<close> bits whatever
  the sign of \<open>k1\<close> is. \<open>8 >>A 1\<close>, whose value is 4, is simplified to the constant
  \<open>0x80000004\<close>, with every amount of fuel that lets \<open>simplify\<close> return and whatever the
  collaborators do.
\<close>

theorem simplify_ShiftRA_sets_high_bits:
  "simplify \<Gamma> (n + 3) (Binary opShiftRA (Const_get 8) (Const_get 1)) = Ok (Const_get 0x80000004)
   \<and> spec_eval (Binary opShiftRA (Const_get 8) (Const_get 1)) = Some 4
   \<and> spec_eval (Const_get 0x80000004) = Some 0x80000004"
proof -
  have "simplify \<Gamma> (Suc (Suc (Suc n))) (Binary opShiftRA (Const_get 8) (Const_get 1))
        = Ok (Const_get 0x80000004)"
    by (simp add: Const_get_def binaryStep_def binaryRulesA_def rule_fold_def
        foldConst_ShiftRA_8_1)
  moreover have "spec_eval (Binary opShiftRA (Const_get 8) (Const_get 1)) = Some 4"
    by code_simp
  moreover have "spec_eval (Const_get 0x80000004) = Some 0x80000004"
    by (simp add: Const_get_def)
  ultimately show ?thesis by (simp add: eval_nat_numeral)
qed

section \<open>Simplifying twice\<close>

text \<open>
  C3. \<open>simplify(simplify(e))\<close> is claimed to be equal, under strict equality, to
  \<open>simplify(e)\<close> for every expression \<open>e\<close>. The commutation that puts the address of a
  subscripted global on the left of \<open>+\<close> does not look at the left child: on
  \<open>a[g{-}] + a[h{-}]\<close> it swaps the two addresses in every pass and reports no change.
  \<open>simplify\<close> of the sum is \<open>a[h{-}] + a[g{-}]\<close>, \<open>simplify\<close> of that is the sum
  again, and the two are not equal.
\<close>

theorem simplify_not_idempotent:
  "simplify \<Gamma> (n + 6)
     (Binary opPlus (Unary opAddrOf (RefExp (Location opGlobal (Const (StrV ''g'') 0)) DefNull))
                    (Unary opAddrOf (RefExp (Location opGlobal (Const (StrV ''h'') 0)) DefNull)))
   = Ok (Binary opPlus (Unary opAddrOf (RefExp (Location opGlobal (Const (StrV ''h'') 0)) DefNull))
                       (Unary opAddrOf (RefExp (Location opGlobal (Const (StrV ''g'') 0)) DefNull)))
   \<and> simplify \<Gamma> (n + 6)
     (Binary opPlus (Unary opAddrOf (RefExp (Location opGlobal (Const (StrV ''h'') 0)) DefNull))
                    (Unary opAddrOf (RefExp (Location opGlobal (Const (StrV ''g'') 0)) DefNull)))
   = Ok (Binary opPlus (Unary opAddrOf (RefExp (Location opGlobal (Const (StrV ''g'') 0)) DefNull))
                       (Unary opAddrOf (RefExp (Location opGlobal (Const (StrV ''h'') 0)) DefNull)))
   \<and> exp_eq
     (Binary opPlus (Unary opAddrOf (RefExp (Location opGlobal (Const (StrV ''g'') 0)) DefNull))
                    (Unary opAddrOf (RefExp (Location opGlobal (Const (StrV ''h'') 0)) DefNull)))
     (Binary opPlus (Unary opAddrOf (RefExp (Location opGlobal (Const (StrV ''h'') 0)) DefNull))
                    (Unary opAddrOf (RefExp (Location opGlobal (Const (StrV ''g'') 0)) DefNull)))
     = Inr False"
  by (simp add: simplify_sum_of_globals)

section \<open>A fold that does not return\<close>

text \<open>
  C4. \<open>simplify\<close> is claimed to reach, on every expression and after finitely many
  passes, a pass in which the modification flag stays false. The fold of two integer
  constants divides without looking at the divisor: on \<open>1 / 0\<close> the first pass stops in
  the division by zero, and no amount of fuel makes \<open>simplify\<close> return an expression.
\<close>

theorem simplify_division_by_zero:
  "simplify \<Gamma> n (Binary opDiv (Const_get 1) (Const_get 0))
     = (if n < 3 then OutOfFuel else Fault DivisionByZero)"
proof -
  consider "n = 0" | "n = 1" | "n = 2" | m where "n = Suc (Suc (Suc m))"
    by (metis One_nat_def Suc_1 not0_implies_Suc)
  then show ?thesis
  proof cases
    case 4
    then show ?thesis
      by (simp add: Const_get_def binaryStep_def binaryRulesA_def rule_fold_def
          foldConst_Div_1_0)
  qed (simp_all add: eval_nat_numeral Const_get_def)
qed

end
